theory Spec2Isabelle
  imports Main "HOL-Library.Word" "HOL-Library.AList" "HOL-Library.Multiset"
begin

unbundle bit_operations_syntax

section \<open>JavaScript values read by the evaluation engine\<close>

text \<open>
  The engine reads loosely typed fields of the candidate objects. A field value is
  \<open>undefined\<close>, \<open>null\<close>, a string, a number or \<open>NaN\<close>. Strings are lists of 8-bit
  characters.

  A number other than \<open>NaN\<close> is kept as the text that \<open>String(v)\<close> writes for it:
  \<open>55\<close>, \<open>-7\<close>, \<open>55.9\<close>, \<open>1e+21\<close>, \<open>Infinity\<close>. That text is all the engine uses of
  a number: \<open>parseInt(v)\<close> and \<open>v + ','\<close> both start from \<open>String(v)\<close>, and two
  numbers are \<open>===\<close> exactly when they are written the same (\<open>-0\<close> is written \<open>0\<close>
  and equals \<open>0\<close>). So fractions, numbers in exponent form and the rounding of doubles
  need no arithmetic here. A text that \<open>String\<close> writes for no number stands for no
  value of the program. \<open>NaN\<close> stands apart because it differs from itself.
\<close>

datatype jsval = JSUndefined | JSNull | JSString string | JSNumber string | JSNaN

text \<open>Strict equality \<open>===\<close>: structural on these values, except that \<open>NaN\<close> differs from itself.\<close>

definition strictEq :: "jsval \<Rightarrow> jsval \<Rightarrow> bool" where
  "strictEq a b = (a = b \<and> a \<noteq> JSNaN)"

text \<open>The test \<open>v === '' || v === undefined || v === null\<close> used for ranks and scores.\<close>

definition isEmptyValue :: "jsval \<Rightarrow> bool" where
  "isEmptyValue v = (v = JSString [] \<or> v = JSUndefined \<or> v = JSNull)"

definition isWhiteSpace :: "char \<Rightarrow> bool" where
  "isWhiteSpace c = (c \<in> set [CHR 0x09, CHR 0x0A, CHR 0x0B, CHR 0x0C, CHR 0x0D, CHR 0x20, CHR 0xA0])"

definition trim :: "string \<Rightarrow> string" where
  "trim s = rev (dropWhile isWhiteSpace (rev (dropWhile isWhiteSpace s)))"

definition digitOf :: "char \<Rightarrow> nat option" where
  "digitOf c = (let n = (of_char c :: nat) in
     if 48 \<le> n \<and> n \<le> 57 then Some (n - 48)
     else if 97 \<le> n \<and> n \<le> 102 then Some (n - 87)
     else if 65 \<le> n \<and> n \<le> 70 then Some (n - 55)
     else None)"

definition radixDigit :: "nat \<Rightarrow> char \<Rightarrow> nat option" where
  "radixDigit R c = (case digitOf c of None \<Rightarrow> None | Some d \<Rightarrow> if d < R then Some d else None)"

text \<open>
  \<open>parseInt(s)\<close> without a radix, on a string: leading white space is skipped, one sign is
  read, a \<open>0x\<close> prefix selects radix 16, and the longest prefix of digits is the value;
  no digit gives \<open>NaN\<close>, which is \<open>None\<close> here.
\<close>

definition parseIntString :: "string \<Rightarrow> int option" where
  "parseIntString s =
     (let S = dropWhile isWhiteSpace s;
          neg = (S \<noteq> [] \<and> hd S = CHR ''-'');
          S1 = (if S \<noteq> [] \<and> (hd S = CHR ''-'' \<or> hd S = CHR ''+'') then tl S else S);
          hex = (2 \<le> length S1 \<and> S1 ! 0 = CHR ''0'' \<and> (S1 ! 1 = CHR ''x'' \<or> S1 ! 1 = CHR ''X''));
          R = (if hex then 16 else 10);
          S2 = (if hex then drop 2 S1 else S1);
          Z = takeWhile (\<lambda>c. radixDigit R c \<noteq> None) S2
      in if Z = [] then None
         else Some ((if neg then - 1 else 1) *
                    int (foldl (\<lambda>acc c. acc * R + the (radixDigit R c)) 0 Z)))"

text \<open>
  \<open>parseInt(v)\<close> on a field value: the value is written as a string first, and that
  string is parsed. For the number \<open>55\<close> this gives \<open>55\<close>, for \<open>55.9\<close> it gives
  \<open>55\<close>, and for \<open>1e+21\<close> it gives \<open>1\<close>. \<open>undefined\<close>, \<open>null\<close> and \<open>NaN\<close> are
  written as words and give \<open>NaN\<close>. The result here is the integer that the digits
  denote (\<open>mathInt\<close> in the language specification); JavaScript returns the double nearest
  to it, which is the same number up to \<open>2^53\<close>.
\<close>

fun parseInt :: "jsval \<Rightarrow> int option" where
  "parseInt (JSString s) = parseIntString s"
| "parseInt (JSNumber s) = parseIntString s"
| "parseInt JSUndefined = None"
| "parseInt JSNull = None"
| "parseInt JSNaN = None"

text \<open>\<open>parseInt(v) || 0\<close>: \<open>NaN\<close> and \<open>0\<close> are falsy.\<close>

definition parseIntOrZero :: "jsval \<Rightarrow> int" where
  "parseIntOrZero v = (case parseInt v of None \<Rightarrow> 0 | Some n \<Rightarrow> n)"

text \<open>\<open>Array.prototype.slice(start, end)\<close>: negative positions count from the end.\<close>

definition js_slice :: "int \<Rightarrow> int \<Rightarrow> 'a list \<Rightarrow> 'a list" where
  "js_slice start end xs =
     (let len = int (length xs);
          k = (if start < 0 then max (len + start) 0 else min start len);
          fin = (if end < 0 then max (len + end) 0 else min end len)
      in take (nat (fin - k)) (drop (nat k) xs))"

section \<open>Records of the surrounding application\<close>

text \<open>
  A candidate is an object owned by the caller. Objects live in a heap and are named by
  their address (the index in the heap), so that a write through one reference is seen
  through every other reference to the same object.
\<close>

record candidate =
  Node_xA :: "string option"
  ID_xA :: string
  Group_xA :: string
  Rank_xB :: jsval
  AI_Rank_xB :: jsval
  Root1_xB :: jsval
  Root2_xB :: jsval
  Root3_xB :: jsval
  Class1_xB :: jsval
  Class2_xB :: jsval
  Class3_xB :: jsval
  gridRow :: jsval
  gridCol :: jsval

type_synonym ref = nat

record threshold =
  th_min :: "int option"
  th_max :: "int option"

section \<open>Filter pipeline\<close>

definition applyGroupFilter :: "candidate list \<Rightarrow> ref list \<Rightarrow> string list option \<Rightarrow> ref list" where
  "applyGroupFilter h candidates groupFilter =
     (case groupFilter of
        None \<Rightarrow> candidates
      | Some gs \<Rightarrow> if gs = [] then candidates
                   else filter (\<lambda>c. Group_xA (h ! c) \<in> set gs) candidates)"

definition applyRankFilter :: "candidate list \<Rightarrow> ref list \<Rightarrow> string \<Rightarrow> ref list" where
  "applyRankFilter h candidates rankFilter =
     (if rankFilter = ''unranked'' then filter (\<lambda>c. isEmptyValue (Rank_xB (h ! c))) candidates
      else if rankFilter = ''ranked'' then filter (\<lambda>c. \<not> isEmptyValue (Rank_xB (h ! c))) candidates
      else candidates)"

definition keepsAIScore :: "int \<Rightarrow> int \<Rightarrow> jsval \<Rightarrow> bool" where
  "keepsAIScore mn mx aiRank =
     (let isFullRange = (mn = 0 \<and> mx = 100);
          isEmpty = isEmptyValue aiRank
      in if isEmpty then isFullRange
         else (case parseInt aiRank of
                 None \<Rightarrow> False
               | Some v \<Rightarrow> mn \<le> v \<and> v \<le> mx))"

definition applyAIScoreThreshold :: "candidate list \<Rightarrow> ref list \<Rightarrow> threshold option \<Rightarrow> ref list" where
  "applyAIScoreThreshold h candidates thr =
     (case thr of
        None \<Rightarrow> candidates
      | Some t \<Rightarrow>
          (let mn = (case th_min t of Some m \<Rightarrow> m | None \<Rightarrow> 0);
               mx = (case th_max t of Some m \<Rightarrow> m | None \<Rightarrow> 100)
           in filter (\<lambda>c. keepsAIScore mn mx (AI_Rank_xB (h ! c))) candidates))"

section \<open>Selection policy\<close>

text \<open>
  One call of the generator returned by \<open>mulberry32(seed)\<close>. The closure's variable
  \<open>seed\<close> is a JavaScript number that grows by \<open>0x6D2B79F5\<close> on each call and is
  truncated to 32 bits only when the bit operations read it; it is an \<open>int\<close> here, exact
  as long as it stays below \<open>2^53\<close>. The call returns \<open>u / 4294967296\<close> for the 32-bit
  value \<open>u\<close>; the model returns \<open>u\<close> and the new value of \<open>seed\<close>.
\<close>

definition mulberry32 :: "int \<Rightarrow> nat \<times> int" where
  "mulberry32 seed =
     (let seed' = seed + 0x6D2B79F5;
          t0 = (word_of_int seed' :: 32 word);
          t1 = (t0 XOR drop_bit 15 t0) * (t0 OR 1);
          t2 = t1 XOR (t1 + (t1 XOR drop_bit 7 t1) * (t1 OR 61))
      in (unat (t2 XOR drop_bit 14 t2), seed'))"

text \<open>
  The loop \<open>for (i = length - 1; i > 0; i--)\<close> of \<open>seededShuffle\<close>, from index \<open>i\<close>
  down. \<open>Math.floor(random() * (i + 1))\<close> is \<open>u * (i + 1) div 2^32\<close>.
\<close>

fun shuffleFrom :: "nat \<Rightarrow> int \<Rightarrow> 'a list \<Rightarrow> 'a list" where
  "shuffleFrom 0 seed array = array"
| "shuffleFrom (Suc i) seed array =
     (let (u, seed') = mulberry32 seed;
          j = (u * (Suc i + 1)) div 4294967296;
          temp = array ! Suc i
      in shuffleFrom i seed' ((array[Suc i := array ! j])[j := temp]))"

section \<open>Session data\<close>

record filter_options =
  selectionCount :: int
  selectionMethod :: string
  rankFilter :: string
  aiScoreThreshold :: "threshold option"
  groupFilter :: "string list option"
  randomSeed :: "int option"

record score_entry =
  score :: jsval
  timestamp :: nat
  waveNumber :: nat
  massScored :: bool

text \<open>
  The grid: \<open>cells\<close> is a \<open>Map\<close> from the key \<open>row + ',' + col\<close> to a candidate id, kept
  as an association list in insertion order; \<open>availableCells\<close> is the array of free
  \<open>{row, col}\<close> objects.
\<close>

record grid =
  cells :: "(string \<times> string) list"
  availableCells :: "(jsval \<times> jsval) list"
  cellSize :: "nat \<times> nat"
  spacing :: nat

text \<open>
  What \<open>saveSession\<close> writes under the key \<open>haystack_eval_session\<close>, as
  \<open>JSON.parse\<close> reads it back.
\<close>

record persisted =
  p_id :: string
  p_selectedIds :: "string list"
  p_batchSize :: nat
  p_currentBatchIndex :: nat
  p_currentBatchData :: "(string \<times> jsval \<times> jsval) list"
  p_scores :: "(string \<times> score_entry) list"
  p_undecided :: "string list"
  p_startedAt :: nat
  p_completedAt :: "nat option"
  p_lastSaved :: nat
  p_grid :: "grid option"
  p_config :: "filter_options option"

text \<open>
  The world outside the engine: the heap of candidate objects, the one slot of
  \<open>localStorage\<close> (taken as reliable: no call on it throws), the readings that
  successive calls of \<open>Date.now()\<close> return, and the draws of \<open>Math.random()\<close>.
\<close>

record world =
  heap :: "candidate list"
  storage :: "persisted option"
  clock :: "nat \<Rightarrow> nat"
  ticks :: nat
  rng :: "nat \<Rightarrow> nat"
  draws :: nat

definition Date_now :: "world \<Rightarrow> nat \<times> world" where
  "Date_now w = (clock w (ticks w), w\<lparr>ticks := Suc (ticks w)\<rparr>)"

text \<open>
  \<open>Math.floor(Math.random() * n)\<close> for \<open>n > 0\<close> is any index below \<open>n\<close>, and every
  such index can come out; the draw is reduced modulo \<open>n\<close> to say so.
\<close>

definition randomIndex :: "nat \<Rightarrow> world \<Rightarrow> nat \<times> world" where
  "randomIndex n w = (rng w (draws w) mod n, w\<lparr>draws := Suc (draws w)\<rparr>)"

text \<open>\<open>Object.assign({}, c, ...)\<close> makes a new object.\<close>

definition allocObject :: "candidate \<Rightarrow> world \<Rightarrow> ref \<times> world" where
  "allocObject obj w = (length (heap w), w\<lparr>heap := heap w @ [obj]\<rparr>)"

record session =
  session_id :: string
  selectedCandidates :: "ref list"
  selectedIds :: "string list"
  batchSize :: nat
  currentBatchIndex :: nat
  currentBatchCandidates :: "ref list"
  scores :: "(string \<times> score_entry) list"
  undecided :: "string list"
  startedAt :: nat
  completedAt :: "nat option"
  grid :: grid
  config :: "filter_options option"

text \<open>\<open>Set.prototype.add\<close> on a set kept in insertion order.\<close>

definition setAdd :: "'a \<Rightarrow> 'a list \<Rightarrow> 'a list" where
  "setAdd x xs = (if x \<in> set xs then xs else xs @ [x])"

text \<open>\<open>new Map(entries)\<close> and \<open>new Set(items)\<close>.\<close>

definition newMap :: "('k \<times> 'v) list \<Rightarrow> ('k \<times> 'v) list" where
  "newMap entries = foldl (\<lambda>m (k, v). AList.update k v m) [] entries"

definition newSet :: "'a list \<Rightarrow> 'a list" where
  "newSet items = foldl (\<lambda>s x. setAdd x s) [] items"

section \<open>Selection policy on arrays\<close>

text \<open>
  \<open>seededShuffle\<close> works in place and \<open>applySelectionMethod\<close> first copies its
  argument, so arrays are objects here: a store of arrays, named by their index.
\<close>

definition seededShuffle :: "'a list list \<Rightarrow> nat \<Rightarrow> int option \<Rightarrow> world \<Rightarrow> 'a list list \<times> nat \<times> world" where
  "seededShuffle arrays a seed w =
     (let (seed', w') = (case seed of
                           None \<Rightarrow> (let (t, w1) = Date_now w in (int t, w1))
                         | Some sd \<Rightarrow> (sd, w));
          array = arrays ! a
      in (arrays[a := shuffleFrom (length array - 1) seed' array], a, w'))"

text \<open>
  \<open>Array.prototype.sort\<close> with a comparator on a key is a stable sort by that key;
  \<open>rankB - rankA\<close> sorts by the negated key. The keys are the integers that
  \<open>parseInt\<close> reads, exact for scores of magnitude up to \<open>2^53\<close>.
\<close>

definition applySelectionMethod :: "ref list list \<Rightarrow> nat \<Rightarrow> string \<Rightarrow> int option \<Rightarrow> world \<Rightarrow> ref list list \<times> nat \<times> world" where
  "applySelectionMethod arrays candidates method seed w =
     (let result = length arrays;
          arrays1 = arrays @ [arrays ! candidates]
      in if method = ''top-ai'' then
           (arrays1[result := sort_key (\<lambda>c. - parseIntOrZero (AI_Rank_xB (heap w ! c))) (arrays1 ! result)], result, w)
         else if method = ''bottom-ai'' then
           (arrays1[result := sort_key (\<lambda>c. parseIntOrZero (AI_Rank_xB (heap w ! c))) (arrays1 ! result)], result, w)
         else if method = ''random'' then seededShuffle arrays1 result seed w
         else (arrays1, result, w))"

definition hasValidName :: "candidate \<Rightarrow> bool" where
  "hasValidName c = (case Node_xA c of None \<Rightarrow> False | Some s \<Rightarrow> s \<noteq> [] \<and> trim s \<noteq> [])"

text \<open>Steps 1 to 4 of \<open>filterCandidates\<close>, which \<open>countEligibleCandidates\<close> repeats.\<close>

definition eligibleCandidates :: "candidate list \<Rightarrow> ref list \<Rightarrow> filter_options \<Rightarrow> ref list" where
  "eligibleCandidates h allCandidates options =
     (let candidates = filter (\<lambda>c. hasValidName (h ! c)) allCandidates;
          candidates = applyGroupFilter h candidates (groupFilter options);
          candidates = applyRankFilter h candidates (rankFilter options)
      in applyAIScoreThreshold h candidates (aiScoreThreshold options))"

text \<open>Steps 1 to 5: the filtered array, ordered by the selection method.\<close>

definition orderedCandidates :: "ref list \<Rightarrow> filter_options \<Rightarrow> world \<Rightarrow> ref list \<times> world" where
  "orderedCandidates allCandidates options w =
     (let candidates = eligibleCandidates (heap w) allCandidates options;
          (arrays, r, w') = applySelectionMethod [candidates] 0 (selectionMethod options) (randomSeed options) w
      in (arrays ! r, w'))"

definition filterCandidates :: "ref list \<Rightarrow> filter_options \<Rightarrow> world \<Rightarrow> ref list \<times> world" where
  "filterCandidates allCandidates options w =
     (let (candidates, w') = orderedCandidates allCandidates options w
      in (js_slice 0 (min (selectionCount options) (int (length candidates))) candidates, w'))"

definition countEligibleCandidates :: "candidate list \<Rightarrow> ref list \<Rightarrow> filter_options \<Rightarrow> nat" where
  "countEligibleCandidates h allCandidates options = length (eligibleCandidates h allCandidates options)"

section \<open>Grid allocator\<close>

definition GRID_SIZE :: nat where
  "GRID_SIZE = 3"

definition GRID_CAPACITY :: nat where
  "GRID_CAPACITY = GRID_SIZE * GRID_SIZE"

text \<open>The decimal digits of a number, as \<open>String(n)\<close> writes them.\<close>

definition digitChar :: "nat \<Rightarrow> char" where
  "digitChar d = char_of (48 + d)"

fun decimal :: "nat \<Rightarrow> string" where
  "decimal n = (if n < 10 then [digitChar n] else decimal (n div 10) @ [digitChar (n mod 10)])"

declare decimal.simps [simp del]

text \<open>An integer of magnitude below \<open>10^21\<close> as \<open>String\<close> writes it.\<close>

definition intString :: "int \<Rightarrow> string" where
  "intString n = (if n < 0 then CHR ''-'' # decimal (nat (- n)) else decimal (nat n))"

text \<open>The string that \<open>v + ','\<close> puts in front of the comma.\<close>

fun jsToString :: "jsval \<Rightarrow> string" where
  "jsToString (JSString s) = s"
| "jsToString (JSNumber s) = s"
| "jsToString JSUndefined = ''undefined''"
| "jsToString JSNull = ''null''"
| "jsToString JSNaN = ''NaN''"

definition cellKey :: "jsval \<Rightarrow> jsval \<Rightarrow> string" where
  "cellKey row col = jsToString row @ '','' @ jsToString col"

text \<open>
  The coordinates in the order of the two nested loops of \<open>initGrid\<close>; the loop counters
  are written in decimal.
\<close>

definition gridCoords :: "nat \<Rightarrow> (jsval \<times> jsval) list" where
  "gridCoords n = concat (map (\<lambda>row. map (\<lambda>col. (JSNumber (decimal row), JSNumber (decimal col))) [0..<n]) [0..<n])"

definition initGridOf :: "nat \<Rightarrow> grid" where
  "initGridOf n = \<lparr>cells = [], availableCells = gridCoords n, cellSize = (140, 100), spacing = 10\<rparr>"

definition initGrid :: grid where
  "initGrid = initGridOf GRID_SIZE"

definition assignGridCell :: "candidate \<Rightarrow> grid \<Rightarrow> world \<Rightarrow> (jsval \<times> jsval) option \<times> grid \<times> world" where
  "assignGridCell cand g w =
     (if availableCells g = [] then (None, g, w)
      else
        (let (idx, w') = randomIndex (length (availableCells g)) w;
             cell = availableCells g ! idx;
             g1 = g\<lparr>availableCells := take idx (availableCells g) @ drop (Suc idx) (availableCells g)\<rparr>;
             g2 = g1\<lparr>cells := AList.update (cellKey (fst cell) (snd cell)) (ID_xA cand) (cells g1)\<rparr>
         in (Some cell, g2, w')))"

definition releaseGridCell :: "jsval \<Rightarrow> jsval \<Rightarrow> grid \<Rightarrow> grid" where
  "releaseGridCell row col g =
     (let key = cellKey row col
      in if map_of (cells g) key \<noteq> None
         then g\<lparr>cells := AList.delete key (cells g), availableCells := availableCells g @ [(row, col)]\<rparr>
         else g)"

section \<open>Persistence adapter: saving\<close>

text \<open>
  What \<open>JSON.stringify\<close> followed by \<open>JSON.parse\<close> makes of a value: \<open>NaN\<close> and the
  infinities are written as \<open>null\<close>; an \<open>undefined\<close> property is left out and reads back
  as \<open>undefined\<close>.
\<close>

definition jsonValue :: "jsval \<Rightarrow> jsval" where
  "jsonValue v =
     (if v = JSNaN \<or> v = JSNumber ''Infinity'' \<or> v = JSNumber ''-Infinity'' then JSNull else v)"

definition mapHas :: "('k \<times> 'v) list \<Rightarrow> 'k \<Rightarrow> bool" where
  "mapHas m k = (map_of m k \<noteq> None)"

definition saveSession :: "session \<Rightarrow> world \<Rightarrow> world" where
  "saveSession s w =
     (let gridState = \<lparr>cells = cells (grid s),
                       availableCells = map (\<lambda>(r, c). (jsonValue r, jsonValue c)) (availableCells (grid s)),
                       cellSize = cellSize (grid s),
                       spacing = spacing (grid s)\<rparr>;
          currentBatchData = map (\<lambda>c. (ID_xA (heap w ! c), jsonValue (gridRow (heap w ! c)), jsonValue (gridCol (heap w ! c))))
                                 (currentBatchCandidates s);
          (t, w1) = Date_now w;
          serializable = \<lparr>p_id = session_id s,
                          p_selectedIds = selectedIds s,
                          p_batchSize = batchSize s,
                          p_currentBatchIndex = currentBatchIndex s,
                          p_currentBatchData = currentBatchData,
                          p_scores = map (\<lambda>(k, e). (k, e\<lparr>score := jsonValue (score e)\<rparr>)) (scores s),
                          p_undecided = undecided s,
                          p_startedAt = startedAt s,
                          p_completedAt = completedAt s,
                          p_lastSaved = t,
                          p_grid = Some gridState,
                          p_config = config s\<rparr>
      in w1\<lparr>storage := Some serializable\<rparr>)"

definition clearSession :: "world \<Rightarrow> world" where
  "clearSession w = w\<lparr>storage := None\<rparr>"

section \<open>Session state machine\<close>

text \<open>
  The options object given to \<open>createSession\<close>: a property that is not given is \<open>None\<close>
  and takes its default. For \<open>groupFilter\<close> and \<open>randomSeed\<close> the default is \<open>null\<close>, so
  \<open>null\<close> and absent are one case; \<open>aiScoreThreshold\<close> may also be given as \<open>null\<close>.
\<close>

record given_options =
  given_selectionCount :: "int option"
  given_batchSize :: "nat option"
  given_selectionMethod :: "string option"
  given_rankFilter :: "string option"
  given_aiScoreThreshold :: "threshold option option"
  given_groupFilter :: "string list option"
  given_randomSeed :: "int option"

text \<open>\<open>DEFAULT_SESSION_OPTIONS\<close>; its entry \<open>batchSize\<close> is kept beside it.\<close>

definition DEFAULT_SESSION_OPTIONS :: filter_options where
  "DEFAULT_SESSION_OPTIONS =
     \<lparr>selectionCount = 50,
      selectionMethod = ''top-ai'',
      rankFilter = ''unranked'',
      aiScoreThreshold = Some \<lparr>th_min = Some 0, th_max = Some 100\<rparr>,
      groupFilter = None,
      randomSeed = None\<rparr>"

definition DEFAULT_batchSize :: nat where
  "DEFAULT_batchSize = GRID_CAPACITY"

text \<open>\<open>Object.assign({}, DEFAULT_SESSION_OPTIONS, options || {})\<close>.\<close>

definition mergeOptions :: "given_options \<Rightarrow> filter_options \<times> nat" where
  "mergeOptions opts =
     (\<lparr>selectionCount = (case given_selectionCount opts of Some n \<Rightarrow> n | None \<Rightarrow> selectionCount DEFAULT_SESSION_OPTIONS),
       selectionMethod = (case given_selectionMethod opts of Some m \<Rightarrow> m | None \<Rightarrow> selectionMethod DEFAULT_SESSION_OPTIONS),
       rankFilter = (case given_rankFilter opts of Some r \<Rightarrow> r | None \<Rightarrow> rankFilter DEFAULT_SESSION_OPTIONS),
       aiScoreThreshold = (case given_aiScoreThreshold opts of Some t \<Rightarrow> t | None \<Rightarrow> aiScoreThreshold DEFAULT_SESSION_OPTIONS),
       groupFilter = (case given_groupFilter opts of Some g \<Rightarrow> Some g | None \<Rightarrow> groupFilter DEFAULT_SESSION_OPTIONS),
       randomSeed = (case given_randomSeed opts of Some sd \<Rightarrow> Some sd | None \<Rightarrow> randomSeed DEFAULT_SESSION_OPTIONS)\<rparr>,
      (case given_batchSize opts of Some b \<Rightarrow> b | None \<Rightarrow> DEFAULT_batchSize))"

record no_candidates =
  create_error :: string
  suggestions :: "string list"

text \<open>
  The first two steps of \<open>createSession\<close>: the merge with the defaults, and a seed from
  the clock when the method is \<open>random\<close> and \<open>!options.randomSeed\<close> holds (no seed, or
  the seed \<open>0\<close>).
\<close>

definition sessionOptions :: "given_options \<Rightarrow> world \<Rightarrow> filter_options \<times> nat \<times> world" where
  "sessionOptions opts w =
     (let (options0, bsize) = mergeOptions opts
      in if selectionMethod options0 = ''random'' \<and> (randomSeed options0 = None \<or> randomSeed options0 = Some 0)
         then (let (t, w') = Date_now w in (options0\<lparr>randomSeed := Some (int t)\<rparr>, bsize, w'))
         else (options0, bsize, w))"

definition createSession :: "ref list \<Rightarrow> given_options \<Rightarrow> world \<Rightarrow> (no_candidates + session) \<times> world" where
  "createSession allCandidates opts w =
     (let (options, bsize, w1) = sessionOptions opts w;
          (selected, w2) = filterCandidates allCandidates options w1
      in if selected = [] then
           (Inl \<lparr>create_error = ''No candidates match the current filters'',
                 suggestions = [''Try expanding the AI score range'',
                                ''Include ranked candidates (change rank filter to \"all\")'',
                                ''Select more groups'']\<rparr>, w2)
         else
           (let w3 = clearSession w2;
                (t_id, w4) = Date_now w3;
                (t_start, w5) = Date_now w4;
                s = \<lparr>session_id = ''eval-'' @ decimal t_id,
                     selectedCandidates = selected,
                     selectedIds = map (\<lambda>c. ID_xA (heap w5 ! c)) selected,
                     batchSize = bsize,
                     currentBatchIndex = 0,
                     currentBatchCandidates = [],
                     scores = [],
                     undecided = [],
                     startedAt = t_start,
                     completedAt = None,
                     grid = initGrid,
                     config = Some options\<rparr>
            in (Inr s, saveSession s w5)))"

definition getCurrentBatch :: "candidate list \<Rightarrow> session \<Rightarrow> ref list" where
  "getCurrentBatch h s =
     (let start = currentBatchIndex s * batchSize s;
          batchCandidates = js_slice (int start) (int (start + batchSize s)) (selectedCandidates s)
      in filter (\<lambda>c. \<not> mapHas (scores s) (ID_xA (h ! c)) \<and> ID_xA (h ! c) \<notin> set (undecided s)) batchCandidates)"

text \<open>
  \<open>currentBatchIndex < Math.ceil(length / batchSize) - 1\<close>; a batch size of \<open>0\<close> makes the
  quotient \<open>Infinity\<close>, or \<open>NaN\<close> for an empty selection.
\<close>

definition advanceToNextBatch :: "session \<Rightarrow> world \<Rightarrow> bool \<times> session \<times> world" where
  "advanceToNextBatch s w =
     (let len = length (selectedCandidates s);
          more = (if batchSize s = 0 then len \<noteq> 0
                  else currentBatchIndex s + 1 < (len + batchSize s - 1) div batchSize s)
      in if more then
           (let s1 = s\<lparr>currentBatchIndex := currentBatchIndex s + 1\<rparr>
            in (True, s1, saveSession s1 w))
         else (False, s, w))"

record score_result =
  success :: bool
  evaluationComplete :: "bool option"
  error :: "string option"

definition scoreCandidate :: "session \<Rightarrow> string \<Rightarrow> jsval \<Rightarrow> world \<Rightarrow> score_result \<times> session \<times> world" where
  "scoreCandidate s candidateId sc w =
     (if mapHas (scores s) candidateId then
        (\<lparr>success = False, evaluationComplete = None, error = Some ''Already scored''\<rparr>, s, w)
      else
        (let (t, w1) = Date_now w;
             s1 = s\<lparr>scores := AList.update candidateId
                                 \<lparr>score = sc, timestamp = t, waveNumber = currentBatchIndex s + 1, massScored = False\<rparr>
                                 (scores s)\<rparr>;
             w2 = saveSession s1 w1;
             totalToEvaluate = length (selectedCandidates s1);
             totalProcessed = length (scores s1) + length (undecided s1);
             complete = (totalToEvaluate \<le> totalProcessed)
         in if complete then
              (let (t2, w3) = Date_now w2;
                   s2 = s1\<lparr>completedAt := Some t2\<rparr>
               in (\<lparr>success = True, evaluationComplete = Some complete, error = None\<rparr>, s2, saveSession s2 w3))
            else (\<lparr>success = True, evaluationComplete = Some complete, error = None\<rparr>, s1, w2)))"

definition skipCandidate :: "session \<Rightarrow> string \<Rightarrow> world \<Rightarrow> score_result \<times> session \<times> world" where
  "skipCandidate s candidateId w =
     (let s1 = s\<lparr>undecided := setAdd candidateId (undecided s)\<rparr>;
          w1 = saveSession s1 w;
          totalToEvaluate = length (selectedCandidates s1);
          totalProcessed = length (scores s1) + length (undecided s1);
          complete = (totalToEvaluate \<le> totalProcessed)
      in if complete then
           (let (t2, w2) = Date_now w1;
                s2 = s1\<lparr>completedAt := Some t2\<rparr>
            in (\<lparr>success = True, evaluationComplete = Some complete, error = None\<rparr>, s2, saveSession s2 w2))
         else (\<lparr>success = True, evaluationComplete = Some complete, error = None\<rparr>, s1, w1))"

text \<open>
  The \<open>map\<close> callback of \<open>getNextBatchWithGridPositions\<close>, run over the batch from left
  to right: each candidate gets a cell and is copied into a new object.
\<close>

fun assignBatch :: "ref list \<Rightarrow> grid \<Rightarrow> world \<Rightarrow> ref list \<times> grid \<times> world" where
  "assignBatch [] g w = ([], g, w)"
| "assignBatch (c # cs) g w =
     (let (cell, g1, w1) = assignGridCell (heap w ! c) g w;
          copy = (case cell of
                    Some (row, col) \<Rightarrow> (heap w1 ! c)\<lparr>gridRow := row, gridCol := col\<rparr>
                  | None \<Rightarrow> heap w1 ! c);
          (r, w2) = allocObject copy w1;
          (rs, g2, w3) = assignBatch cs g1 w2
      in (r # rs, g2, w3))"

definition getNextBatchWithGridPositions :: "session \<Rightarrow> world \<Rightarrow> ref list \<times> session \<times> world" where
  "getNextBatchWithGridPositions s w =
     (let unprocessed = filter (\<lambda>c. \<not> mapHas (scores s) (ID_xA (heap w ! c)) \<and> ID_xA (heap w ! c) \<notin> set (undecided s))
                               (selectedCandidates s);
          (batch, g, w1) = assignBatch (js_slice 0 (int (batchSize s)) unprocessed) (grid s) w;
          s1 = s\<lparr>grid := g, currentBatchCandidates := batch\<rparr>
      in (batch, s1, saveSession s1 w1))"

definition removeFromBatch :: "session \<Rightarrow> string \<Rightarrow> world \<Rightarrow> nat \<times> session \<times> world" where
  "removeFromBatch s candidateId w =
     (let currentBatch = currentBatchCandidates s;
          departing = find (\<lambda>c. ID_xA (heap w ! c) = candidateId) currentBatch;
          g = (case departing of
                 None \<Rightarrow> grid s
               | Some d \<Rightarrow> if gridRow (heap w ! d) \<noteq> JSUndefined
                           then releaseGridCell (gridRow (heap w ! d)) (gridCol (heap w ! d)) (grid s)
                           else grid s);
          s1 = s\<lparr>grid := g, currentBatchCandidates := filter (\<lambda>c. ID_xA (heap w ! c) \<noteq> candidateId) currentBatch\<rparr>
      in (length (currentBatchCandidates s1), s1, saveSession s1 w))"

definition replaceInGrid :: "session \<Rightarrow> string \<Rightarrow> world \<Rightarrow> ref option \<times> session \<times> world" where
  "replaceInGrid s candidateId w =
     (let currentBatch = currentBatchCandidates s
      in case find (\<lambda>c. ID_xA (heap w ! c) = candidateId) currentBatch of
           None \<Rightarrow> (None, s, w)
         | Some d \<Rightarrow>
             if gridRow (heap w ! d) = JSUndefined then (None, s, w)
             else
               (let departing = heap w ! d;
                    g = releaseGridCell (gridRow departing) (gridCol departing) (grid s);
                    batch = filter (\<lambda>c. ID_xA (heap w ! c) \<noteq> candidateId) currentBatch;
                    currentIds = map (\<lambda>c. ID_xA (heap w ! c)) batch
                in case find (\<lambda>c. \<not> mapHas (scores s) (ID_xA (heap w ! c)) \<and>
                                    ID_xA (heap w ! c) \<notin> set (undecided s) \<and>
                                    ID_xA (heap w ! c) \<notin> set currentIds) (selectedCandidates s) of
                     Some n \<Rightarrow>
                       (let (nextWithGrid, w1) =
                               allocObject ((heap w ! n)\<lparr>gridRow := gridRow departing, gridCol := gridCol departing\<rparr>) w;
                            obj = heap w1 ! nextWithGrid;
                            g1 = g\<lparr>cells := AList.update (cellKey (gridRow obj) (gridCol obj)) (ID_xA obj) (cells g)\<rparr>;
                            s1 = s\<lparr>grid := g1, currentBatchCandidates := batch @ [nextWithGrid]\<rparr>
                        in (Some nextWithGrid, s1, saveSession s1 w1))
                   | None \<Rightarrow>
                       (let s1 = s\<lparr>grid := g, currentBatchCandidates := batch\<rparr>
                        in (None, s1, saveSession s1 w))))"

section \<open>Mass scoring\<close>

definition matchesAttribute :: "string \<Rightarrow> jsval \<Rightarrow> candidate \<Rightarrow> bool" where
  "matchesAttribute attributeType attributeValue c =
     (if attributeType = ''root''
      then strictEq (Root1_xB c) attributeValue \<or> strictEq (Root2_xB c) attributeValue \<or> strictEq (Root3_xB c) attributeValue
      else strictEq (Class1_xB c) attributeValue \<or> strictEq (Class2_xB c) attributeValue \<or> strictEq (Class3_xB c) attributeValue)"

record mass_result =
  affected :: nat
  reScored :: nat
  scoredIds :: "string list"

text \<open>The first \<open>forEach\<close> of \<open>massScoreByAttribute\<close>, over the matching candidates.\<close>

fun massScoreEach :: "ref list \<Rightarrow> jsval \<Rightarrow> session \<Rightarrow> mass_result \<Rightarrow> world \<Rightarrow> session \<times> mass_result \<times> world" where
  "massScoreEach [] sc s res w = (s, res, w)"
| "massScoreEach (c # cs) sc s res w =
     (let cid = ID_xA (heap w ! c);
          wasAlreadyScored = mapHas (scores s) cid;
          res1 = (if wasAlreadyScored then res\<lparr>reScored := reScored res + 1\<rparr> else res);
          (t, w1) = Date_now w;
          s1 = s\<lparr>scores := AList.update cid
                              \<lparr>score = sc, timestamp = t, waveNumber = currentBatchIndex s + 1, massScored = True\<rparr>
                              (scores s)\<rparr>;
          res2 = res1\<lparr>scoredIds := scoredIds res1 @ [cid], affected := affected res1 + 1\<rparr>
      in massScoreEach cs sc s1 res2 w1)"

text \<open>\<open>String.prototype.split\<close> at one character.\<close>

fun splitAt :: "char \<Rightarrow> string \<Rightarrow> string list" where
  "splitAt d [] = [[]]"
| "splitAt d (c # cs) =
     (if c = d then [] # splitAt d cs
      else (case splitAt d cs of
              p # ps \<Rightarrow> (c # p) # ps
            | [] \<Rightarrow> [[c]]))"

text \<open>
  The number that a result of \<open>parseInt\<close> is, in its written form; exact for results of
  magnitude below \<open>2^53\<close>, which covers every key that the engine itself puts in a grid.
\<close>

definition numberOf :: "int option \<Rightarrow> jsval" where
  "numberOf r = (case r of None \<Rightarrow> JSNaN | Some n \<Rightarrow> JSNumber (intString n))"

text \<open>
  \<open>session.grid.cells.forEach\<close> for one scored id. The callback deletes entries of the map
  it walks, and an entry deleted before its turn is not visited: the walk goes over the
  entries as they were at the start and skips those that are gone.
\<close>

fun releaseCellsOf :: "string \<Rightarrow> (string \<times> string) list \<Rightarrow> grid \<Rightarrow> grid" where
  "releaseCellsOf cid [] g = g"
| "releaseCellsOf cid ((key, candidateId) # rest) g =
     (if mapHas (cells g) key \<and> candidateId = cid then
        (let parts = splitAt CHR '','' key;
             row = numberOf (parseInt (JSString (parts ! 0)));
             col = numberOf (parseInt (if 2 \<le> length parts then JSString (parts ! 1) else JSUndefined))
         in releaseCellsOf cid rest (releaseGridCell row col g))
      else releaseCellsOf cid rest g)"

definition massScoreByAttribute ::
  "session \<Rightarrow> string \<Rightarrow> jsval \<Rightarrow> jsval \<Rightarrow> ref list option \<Rightarrow> world \<Rightarrow> mass_result \<times> session \<times> world" where
  "massScoreByAttribute s attributeType attributeValue sc allNodes w =
     (let candidates = (case allNodes of Some nodes \<Rightarrow> nodes | None \<Rightarrow> selectedCandidates s);
          matching = filter (\<lambda>c. matchesAttribute attributeType attributeValue (heap w ! c)) candidates;
          (s1, res, w1) = massScoreEach matching sc s \<lparr>affected = 0, reScored = 0, scoredIds = []\<rparr> w;
          g = foldl (\<lambda>g cid. releaseCellsOf cid (cells g) g) (grid s1) (scoredIds res);
          s2 = s1\<lparr>grid := g,
                  currentBatchCandidates := filter (\<lambda>c. ID_xA (heap w1 ! c) \<notin> set (scoredIds res)) (currentBatchCandidates s1)\<rparr>;
          totalToEvaluate = length (selectedCandidates s2);
          totalProcessed = length (scores s2) + length (undecided s2);
          (s3, w2) = (if totalToEvaluate \<le> totalProcessed
                      then (let (t, w') = Date_now w1 in (s2\<lparr>completedAt := Some t\<rparr>, w'))
                      else (s2, w1))
      in (res, s3, saveSession s3 w2))"

section \<open>Persistence adapter: loading\<close>

text \<open>\<open>candidateMap\<close>: of two objects with one id, the later one in the array is kept.\<close>

definition candidateMap :: "candidate list \<Rightarrow> ref list \<Rightarrow> string \<Rightarrow> ref option" where
  "candidateMap h allCandidates = map_of (rev (map (\<lambda>c. (ID_xA (h ! c), c)) allCandidates))"

text \<open>\<open>ids.map(id => candidateMap.get(id)).filter(c => c !== undefined)\<close>.\<close>

definition resolveIds :: "(string \<Rightarrow> ref option) \<Rightarrow> string list \<Rightarrow> ref list" where
  "resolveIds cmap ids = map the (filter (\<lambda>c. c \<noteq> None) (map cmap ids))"

text \<open>
  The \<open>forEach\<close> over \<open>currentBatchData\<close>: the grid position is written into the object
  found in the caller's array, and that object itself is pushed.
\<close>

fun restoreBatch :: "(string \<Rightarrow> ref option) \<Rightarrow> (string \<times> jsval \<times> jsval) list \<Rightarrow> candidate list \<Rightarrow> ref list \<times> candidate list" where
  "restoreBatch cmap [] h = ([], h)"
| "restoreBatch cmap ((item_id, item_gridRow, item_gridCol) # items) h =
     (case cmap item_id of
        Some c \<Rightarrow>
          (let h1 = h[c := (h ! c)\<lparr>gridRow := item_gridRow, gridCol := item_gridCol\<rparr>];
               (cs, h2) = restoreBatch cmap items h1
           in (c # cs, h2))
      | None \<Rightarrow> restoreBatch cmap items h)"

text \<open>
  \<open>selectedCandidates.length < data.selectedIds.length * 0.9\<close> compares a count with a
  product in floating point; for counts below \<open>10^14\<close> it holds exactly when
  \<open>10 * found < 9 * stored\<close>, which is what the model tests. \<open>data.completedAt\<close> is
  truthy when it is a number other than \<open>0\<close>.
\<close>

definition loadSession :: "ref list \<Rightarrow> world \<Rightarrow> session option \<times> world" where
  "loadSession allCandidates w =
     (case storage w of
        None \<Rightarrow> (None, w)
      | Some data \<Rightarrow>
          if p_completedAt data \<noteq> None \<and> p_completedAt data \<noteq> Some 0 then (None, w)
          else
            (let cmap = candidateMap (heap w) allCandidates;
                 selected = resolveIds cmap (p_selectedIds data)
             in if 10 * length selected < 9 * length (p_selectedIds data) then (None, clearSession w)
                else
                  (let g = (case p_grid data of
                              None \<Rightarrow> initGrid
                            | Some pg \<Rightarrow> \<lparr>cells = newMap (cells pg),
                                          availableCells = availableCells pg,
                                          cellSize = cellSize pg,
                                          spacing = (if spacing pg = 0 then spacing initGrid else spacing pg)\<rparr>);
                       (batch, h1) = restoreBatch cmap (p_currentBatchData data) (heap w)
                   in (Some \<lparr>session_id = p_id data,
                             selectedCandidates = selected,
                             selectedIds = p_selectedIds data,
                             batchSize = p_batchSize data,
                             currentBatchIndex = p_currentBatchIndex data,
                             currentBatchCandidates = batch,
                             scores = newMap (p_scores data),
                             undecided = newSet (p_undecided data),
                             startedAt = p_startedAt data,
                             completedAt = p_completedAt data,
                             grid = g,
                             config = p_config data\<rparr>,
                       w\<lparr>heap := h1\<rparr>))))"

section \<open>Sequences of engine operations\<close>

datatype engine_op =
    ScoreCandidate string jsval
  | SkipCandidate string
  | MassScoreByAttribute string jsval jsval "ref list option"
  | AdvanceToNextBatch
  | GetNextBatchWithGridPositions
  | RemoveFromBatch string
  | ReplaceInGrid string

fun applyOp :: "engine_op \<Rightarrow> session \<times> world \<Rightarrow> session \<times> world" where
  "applyOp (ScoreCandidate cid sc) st = snd (scoreCandidate (fst st) cid sc (snd st))"
| "applyOp (SkipCandidate cid) st = snd (skipCandidate (fst st) cid (snd st))"
| "applyOp (MassScoreByAttribute ty v sc nodes) st = snd (massScoreByAttribute (fst st) ty v sc nodes (snd st))"
| "applyOp AdvanceToNextBatch st = snd (advanceToNextBatch (fst st) (snd st))"
| "applyOp GetNextBatchWithGridPositions st = snd (getNextBatchWithGridPositions (fst st) (snd st))"
| "applyOp (RemoveFromBatch cid) st = snd (removeFromBatch (fst st) cid (snd st))"
| "applyOp (ReplaceInGrid cid) st = snd (replaceInGrid (fst st) cid (snd st))"

definition runOps :: "engine_op list \<Rightarrow> session \<times> world \<Rightarrow> session \<times> world" where
  "runOps ops sw = foldl (\<lambda>st op. applyOp op st) sw ops"

datatype grid_op = Assign candidate | Release jsval jsval

fun applyGridOp :: "grid_op \<Rightarrow> grid \<times> world \<Rightarrow> grid \<times> world" where
  "applyGridOp (Assign cand) st = snd (assignGridCell cand (fst st) (snd st))"
| "applyGridOp (Release row col) st = (releaseGridCell row col (fst st), snd st)"

definition runGridOps :: "grid_op list \<Rightarrow> grid \<times> world \<Rightarrow> grid \<times> world" where
  "runGridOps ops gw = foldl (\<lambda>st op. applyGridOp op st) gw ops"

section \<open>Properties of a session\<close>

text \<open>No record id is both a key of \<open>scores\<close> and a member of \<open>undecided\<close>.\<close>

definition exclusive :: "session \<Rightarrow> bool" where
  "exclusive s = (fst ` set (scores s) \<inter> set (undecided s) = {})"

text \<open>The candidates that \<open>massScoreByAttribute\<close> finds matching.\<close>

definition massMatching :: "session \<Rightarrow> string \<Rightarrow> jsval \<Rightarrow> ref list option \<Rightarrow> world \<Rightarrow> ref list" where
  "massMatching s ty v nodes w =
     filter (\<lambda>c. matchesAttribute ty v (heap w ! c)) (case nodes of Some ns \<Rightarrow> ns | None \<Rightarrow> selectedCandidates s)"

text \<open>
  A caller keeps scoring and skipping apart when it never skips an id that has a score and
  never scores, one by one or in a mass, an id that was skipped.
\<close>

fun opKeepsApart :: "engine_op \<Rightarrow> session \<times> world \<Rightarrow> bool" where
  "opKeepsApart (ScoreCandidate cid sc) st = (cid \<notin> set (undecided (fst st)))"
| "opKeepsApart (SkipCandidate cid) st = (\<not> mapHas (scores (fst st)) cid)"
| "opKeepsApart (MassScoreByAttribute ty v sc nodes) st =
     (\<forall>c \<in> set (massMatching (fst st) ty v nodes (snd st)). ID_xA (heap (snd st) ! c) \<notin> set (undecided (fst st)))"
| "opKeepsApart _ st = True"

fun keptApart :: "engine_op list \<Rightarrow> session \<times> world \<Rightarrow> bool" where
  "keptApart [] st = True"
| "keptApart (op # ops) st = (opKeepsApart op st \<and> keptApart ops (applyOp op st))"

text \<open>The keys under which a list of cells is kept in the map.\<close>

definition cellKeys :: "(jsval \<times> jsval) list \<Rightarrow> string list" where
  "cellKeys cs = map (\<lambda>(row, col). cellKey row col) cs"

text \<open>The keys of the free cells together with the keys of the occupied cells, with multiplicity.\<close>

definition gridKeys :: "grid \<Rightarrow> string multiset" where
  "gridKeys g = mset (cellKeys (availableCells g)) + mset (map fst (cells g))"

text \<open>Reading a decimal numeral back, to tell two numerals apart.\<close>

definition undecimal :: "string \<Rightarrow> nat" where
  "undecimal s = foldl (\<lambda>a c. 10 * a + (of_char c - 48)) 0 s"

text \<open>
  Two calls of \<open>applySelectionMethod\<close> with the method \<open>random\<close> and one seed on the same
  input array, the second in the store the first one left and in any later world: the
  store at the end and the two arrays returned.
\<close>

definition selectRandomTwice :: "ref list list \<Rightarrow> nat \<Rightarrow> int \<Rightarrow> world \<Rightarrow> world \<Rightarrow> ref list list \<times> nat \<times> nat" where
  "selectRandomTwice arrays a S w w' =
     (let (arrays1, r1, w1) = applySelectionMethod arrays a ''random'' (Some S) w;
          (arrays2, r2, w2) = applySelectionMethod arrays1 a ''random'' (Some S) w'
      in (arrays2, r1, r2))"

text \<open>
  A score value is numeric, in the plain sense of the word, when it is a number or a
  string that is a decimal numeral throughout: an optional sign, then digits and nothing
  else.
\<close>

definition isNumeral :: "string \<Rightarrow> bool" where
  "isNumeral s =
     (let body = (case s of
                    [] \<Rightarrow> []
                  | c # cs \<Rightarrow> if c = CHR ''-'' \<or> c = CHR ''+'' then cs else s)
      in body \<noteq> [] \<and> list_all (\<lambda>c. radixDigit 10 c \<noteq> None) body)"

fun isNumericValue :: "jsval \<Rightarrow> bool" where
  "isNumericValue (JSNumber s) = True"
| "isNumericValue (JSString s) = isNumeral s"
| "isNumericValue v = False"

text \<open>
  \<open>Number.isSafeInteger\<close>: an integer that a double holds exactly, with its neighbours.
  A comparison of any integer with a safe integer has the same outcome before and after
  rounding to a double.
\<close>

definition isSafeInteger :: "int \<Rightarrow> bool" where
  "isSafeInteger n = (\<bar>n\<bar> < 2 ^ 53)"

text \<open>An id resolves in a dataset when some object of the dataset carries it.\<close>

definition resolves :: "candidate list \<Rightarrow> ref list \<Rightarrow> string \<Rightarrow> bool" where
  "resolves h allCandidates i = (\<exists>c \<in> set allCandidates. ID_xA (h ! c) = i)"

section \<open>Sample data\<close>

definition sampleCandidate :: "string \<Rightarrow> jsval \<Rightarrow> candidate" where
  "sampleCandidate cid aiRank =
     \<lparr>Node_xA = Some ''node'', ID_xA = cid, Group_xA = ''G'', Rank_xB = JSString [], AI_Rank_xB = aiRank,
      Root1_xB = JSString ''R1'', Root2_xB = JSString [], Root3_xB = JSString [],
      Class1_xB = JSString [], Class2_xB = JSString [], Class3_xB = JSString [],
      gridRow = JSUndefined, gridCol = JSUndefined\<rparr>"

definition sampleWorld :: "candidate list \<Rightarrow> world" where
  "sampleWorld h = \<lparr>heap = h, storage = None, clock = (\<lambda>k. 1000 + k), ticks = 0, rng = (\<lambda>k. k), draws = 0\<rparr>"

definition sampleScores :: "candidate list" where
  "sampleScores =
     [sampleCandidate ''A'' (JSString []), sampleCandidate ''B'' (JSNumber ''55''),
      sampleCandidate ''C'' (JSString ''abc''), sampleCandidate ''D'' (JSNumber ''55.9''),
      sampleCandidate ''E'' (JSNumber ''1e+21'')]"

definition sampleMixed :: "candidate list" where
  "sampleMixed = [sampleCandidate ''D'' (JSString ''12abc'')]"

definition noOptions :: given_options where
  "noOptions = \<lparr>given_selectionCount = None, given_batchSize = None, given_selectionMethod = None,
     given_rankFilter = None, given_aiScoreThreshold = None, given_groupFilter = None, given_randomSeed = None\<rparr>"

definition singleWorld :: world where
  "singleWorld = sampleWorld [sampleCandidate ''A'' (JSNumber ''55'')]"

definition singleSession :: session where
  "singleSession =
     \<lparr>session_id = ''eval-'' @ decimal 1000, selectedCandidates = [0], selectedIds = [''A''], batchSize = GRID_CAPACITY,
      currentBatchIndex = 0, currentBatchCandidates = [], scores = [], undecided = [], startedAt = 1001,
      completedAt = None, grid = initGrid, config = Some DEFAULT_SESSION_OPTIONS\<rparr>"

definition singleScored :: "score_result \<times> session \<times> world" where
  "singleScored = scoreCandidate singleSession ''A'' (JSNumber ''2'') (snd (createSession [0] noOptions singleWorld))"

definition pairRefs :: "ref list" where
  "pairRefs = [0, 1]"

definition pairWorld :: world where
  "pairWorld = sampleWorld [sampleCandidate ''A'' (JSNumber ''55''), sampleCandidate ''B'' (JSNumber ''70'')]"

definition pairSession :: session where
  "pairSession =
     \<lparr>session_id = ''eval-'' @ decimal 1000, selectedCandidates = [1, 0], selectedIds = [''B'', ''A''], batchSize = GRID_CAPACITY,
      currentBatchIndex = 0, currentBatchCandidates = [], scores = [], undecided = [], startedAt = 1001,
      completedAt = None, grid = initGrid, config = Some DEFAULT_SESSION_OPTIONS\<rparr>"

definition pairScored :: "score_result \<times> session \<times> world" where
  "pairScored = scoreCandidate pairSession ''A'' (JSNumber ''2'') (snd (createSession pairRefs noOptions pairWorld))"

text \<open>Fifty-one candidates that pass every default filter.\<close>

definition manyRefs :: "ref list" where
  "manyRefs = [0..<51]"

definition manyWorld :: world where
  "manyWorld = sampleWorld (map (\<lambda>k. sampleCandidate (decimal k) (JSNumber ''50'')) [0..<51])"

definition oneOption :: given_options where
  "oneOption = noOptions\<lparr>given_selectionCount := Some 1\<rparr>"

definition noLimit :: given_options where
  "noLimit = noOptions\<lparr>given_selectionCount := Some 9999\<rparr>"

text \<open>
  Stored sessions: one whose ids mostly no longer resolve, one that resumes, and the world
  left by serving the only candidate of a session in the grid and then scoring it.
\<close>

definition stalePersisted :: persisted where
  "stalePersisted =
     \<lparr>p_id = ''eval-1000'', p_selectedIds = [''A'', ''Y'', ''Z''], p_batchSize = 9, p_currentBatchIndex = 0,
      p_currentBatchData = [(''A'', JSNumber ''1'', JSNumber ''2'')], p_scores = [], p_undecided = [],
      p_startedAt = 1001, p_completedAt = None, p_lastSaved = 1002, p_grid = None, p_config = None\<rparr>"

definition staleWorld :: world where
  "staleWorld = singleWorld\<lparr>storage := Some stalePersisted\<rparr>"

definition resumablePersisted :: persisted where
  "resumablePersisted = stalePersisted\<lparr>p_selectedIds := [''A'']\<rparr>"

definition resumableWorld :: world where
  "resumableWorld = singleWorld\<lparr>storage := Some resumablePersisted\<rparr>"

definition servedSingle :: "ref list \<times> session \<times> world" where
  "servedSingle = getNextBatchWithGridPositions singleSession (snd (createSession [0] noOptions singleWorld))"

definition completedWorld :: world where
  "completedWorld = snd (snd (scoreCandidate (fst (snd servedSingle)) ''A'' (JSNumber ''2'') (snd (snd servedSingle))))"

section \<open>The score threshold stage\<close>

lemma parseIntString_abc: "parseIntString ''abc'' = None"
  by (simp add: parseIntString_def isWhiteSpace_def radixDigit_def digitOf_def Let_def)

lemma parseIntString_samples:
  "parseIntString ''55'' = Some 55" "parseIntString ''70'' = Some 70" "parseIntString ''50'' = Some 50"
  by (simp_all add: parseIntString_def isWhiteSpace_def radixDigit_def digitOf_def Let_def)

lemma parseIntString_12abc: "parseIntString ''12abc'' = Some 12"
  by (simp add: parseIntString_def isWhiteSpace_def radixDigit_def digitOf_def Let_def)

text \<open>
  Claim C7, as stated. The claim says that a score that is neither empty nor numeric always
  drops the candidate. The stage reads the score with \<open>parseInt\<close>, which takes the digits
  a string begins with and ignores the rest: the score \<open>12abc\<close> is not numeric, and with
  the threshold 10 to 60 its candidate is kept.
\<close>

theorem non_numeric_score_kept_counterexample:
  "\<not> isEmptyValue (AI_Rank_xB (sampleMixed ! 0))
   \<and> \<not> isNumericValue (AI_Rank_xB (sampleMixed ! 0))
   \<and> applyAIScoreThreshold sampleMixed [0] (Some \<lparr>th_min = Some 10, th_max = Some 60\<rparr>) = [0]"
  by (simp add: sampleMixed_def sampleCandidate_def isEmptyValue_def isNumeral_def radixDigit_def digitOf_def
      applyAIScoreThreshold_def keepsAIScore_def Let_def parseIntString_12abc)

text \<open>
  Claim C7, and what holds instead. With a threshold \<open>{min, max}\<close> whose bounds are safe
  integers (a missing bound taking its default), the score stage keeps a candidate with an
  empty score (\<open>''\<close>, \<open>undefined\<close>, \<open>null\<close>) exactly when the range is 0 to 100; it
  keeps a candidate whose score \<open>parseInt\<close> reads as the integer \<open>v\<close> exactly when
  \<open>min \<le> v \<le> max\<close>; and it drops every candidate whose score is not empty and cannot
  be read by \<open>parseInt\<close>. What \<open>parseInt\<close> reads is the integer that the written form
  of the score begins with, after optional white space and sign: \<open>12\<close> for the string
  \<open>12abc\<close>, \<open>55\<close> for the number \<open>55.9\<close>, \<open>1\<close> for the number \<open>1e+21\<close>.
\<close>

theorem applyAIScoreThreshold_keeps:
  assumes "c \<in> set candidates"
    and "mn = (case th_min t of Some m \<Rightarrow> m | None \<Rightarrow> 0)"
    and "mx = (case th_max t of Some m \<Rightarrow> m | None \<Rightarrow> 100)"
    and "isSafeInteger mn" and "isSafeInteger mx"
  shows "(isEmptyValue (AI_Rank_xB (h ! c)) \<longrightarrow>
           (c \<in> set (applyAIScoreThreshold h candidates (Some t)) \<longleftrightarrow> mn = 0 \<and> mx = 100))
       \<and> (\<forall>v. \<not> isEmptyValue (AI_Rank_xB (h ! c)) \<and> parseInt (AI_Rank_xB (h ! c)) = Some v \<longrightarrow>
           (c \<in> set (applyAIScoreThreshold h candidates (Some t)) \<longleftrightarrow> mn \<le> v \<and> v \<le> mx))
       \<and> (\<not> isEmptyValue (AI_Rank_xB (h ! c)) \<and> parseInt (AI_Rank_xB (h ! c)) = None \<longrightarrow>
           c \<notin> set (applyAIScoreThreshold h candidates (Some t)))"
  using assms by (simp add: applyAIScoreThreshold_def keepsAIScore_def Let_def)

lemma parseIntString_written:
  "parseIntString ''55.9'' = Some 55" "parseIntString ''1e+21'' = Some 1"
  by (simp_all add: parseIntString_def isWhiteSpace_def radixDigit_def digitOf_def Let_def)

theorem applyAIScoreThreshold_keeps_witness:
  "applyAIScoreThreshold sampleScores [0, 1, 2, 3, 4] (Some \<lparr>th_min = Some 10, th_max = Some 60\<rparr>) = [1, 3]
   \<and> (1::nat) \<in> set [0, 1, 2, 3, 4]
   \<and> isSafeInteger 10 \<and> isSafeInteger 60
   \<and> \<not> isEmptyValue (AI_Rank_xB (sampleScores ! 1)) \<and> parseInt (AI_Rank_xB (sampleScores ! 1)) = Some 55
   \<and> (1 \<in> set (applyAIScoreThreshold sampleScores [0, 1, 2, 3, 4] (Some \<lparr>th_min = Some 10, th_max = Some 60\<rparr>))
        \<longleftrightarrow> (10::int) \<le> 55 \<and> (55::int) \<le> 60)
   \<and> parseInt (AI_Rank_xB (sampleScores ! 4)) = Some 1
   \<and> 4 \<notin> set (applyAIScoreThreshold sampleScores [0, 1, 2, 3, 4] (Some \<lparr>th_min = Some 10, th_max = Some 60\<rparr>))"
  using applyAIScoreThreshold_keeps [of 1 "[0, 1, 2, 3, 4]" 10 "\<lparr>th_min = Some 10, th_max = Some 60\<rparr>" 60 sampleScores]
    applyAIScoreThreshold_keeps [of 4 "[0, 1, 2, 3, 4]" 10 "\<lparr>th_min = Some 10, th_max = Some 60\<rparr>" 60 sampleScores]
  by (simp add: applyAIScoreThreshold_def keepsAIScore_def Let_def sampleScores_def sampleCandidate_def
      isEmptyValue_def isSafeInteger_def parseIntString_abc parseIntString_samples parseIntString_written)

section \<open>What the operations do to a session\<close>

lemma heap_Date_now: "heap (snd (Date_now w)) = heap w"
  by (simp add: Date_now_def)

lemma heap_saveSession: "heap (saveSession s w) = heap w"
  by (simp add: saveSession_def Date_now_def Let_def split_def)

lemma mapHas_iff: "mapHas m k \<longleftrightarrow> k \<in> fst ` set m"
  by (simp add: mapHas_def map_of_eq_None_iff)

lemma keys_update: "fst ` set (AList.update k v al) = insert k (fst ` set al)"
  by (simp add: dom_update)

lemma map_of_update_same: "map_of (AList.update k v al) k = Some v"
  by (simp add: update_conv')

lemma set_setAdd: "set (setAdd x xs) = insert x (set xs)"
  by (auto simp: setAdd_def)

lemma scoreCandidate_rejected:
  "mapHas (scores s) cid \<Longrightarrow>
   scoreCandidate s cid sc w = (\<lparr>success = False, evaluationComplete = None, error = Some ''Already scored''\<rparr>, s, w)"
  by (simp add: scoreCandidate_def)

lemma scoreCandidate_scores:
  "\<not> mapHas (scores s) cid \<Longrightarrow>
   scores (fst (snd (scoreCandidate s cid sc w))) =
     AList.update cid \<lparr>score = sc, timestamp = clock w (ticks w), waveNumber = currentBatchIndex s + 1, massScored = False\<rparr> (scores s)"
  by (simp add: scoreCandidate_def Date_now_def Let_def split_def)

lemma scoreCandidate_success:
  "\<not> mapHas (scores s) cid \<Longrightarrow>
   success (fst (scoreCandidate s cid sc w)) \<and> error (fst (scoreCandidate s cid sc w)) = None"
  by (simp add: scoreCandidate_def Date_now_def Let_def split_def)

lemma scoreCandidate_keys:
  "fst ` set (scores (fst (snd (scoreCandidate s cid sc w)))) = insert cid (fst ` set (scores s))"
  by (auto simp: scoreCandidate_def Date_now_def Let_def split_def keys_update mapHas_iff)

lemma scoreCandidate_undecided:
  "undecided (fst (snd (scoreCandidate s cid sc w))) = undecided s"
  by (simp add: scoreCandidate_def Date_now_def Let_def split_def)

lemma scoreCandidate_selected:
  "selectedCandidates (fst (snd (scoreCandidate s cid sc w))) = selectedCandidates s"
  by (simp add: scoreCandidate_def Date_now_def Let_def split_def)

lemma scoreCandidate_completedAt:
  "completedAt s \<noteq> None \<Longrightarrow> completedAt (fst (snd (scoreCandidate s cid sc w))) \<noteq> None"
  by (simp add: scoreCandidate_def Date_now_def Let_def split_def)

lemma skipCandidate_scores:
  "scores (fst (snd (skipCandidate s cid w))) = scores s"
  by (simp add: skipCandidate_def Date_now_def Let_def split_def)

lemma skipCandidate_undecided:
  "undecided (fst (snd (skipCandidate s cid w))) = setAdd cid (undecided s)"
  by (simp add: skipCandidate_def Date_now_def Let_def split_def)

lemma skipCandidate_selected:
  "selectedCandidates (fst (snd (skipCandidate s cid w))) = selectedCandidates s"
  by (simp add: skipCandidate_def Date_now_def Let_def split_def)

lemma skipCandidate_completedAt:
  "completedAt s \<noteq> None \<Longrightarrow> completedAt (fst (snd (skipCandidate s cid w))) \<noteq> None"
  by (simp add: skipCandidate_def Date_now_def Let_def split_def)

lemma skipCandidate_success: "success (fst (skipCandidate s cid w))"
  by (simp add: skipCandidate_def Date_now_def Let_def split_def)

lemma massScoreEach_frame:
  "undecided (fst (massScoreEach cs sc s res w)) = undecided s
   \<and> selectedCandidates (fst (massScoreEach cs sc s res w)) = selectedCandidates s
   \<and> completedAt (fst (massScoreEach cs sc s res w)) = completedAt s
   \<and> heap (snd (snd (massScoreEach cs sc s res w))) = heap w"
  by (induction cs arbitrary: s res w) (simp_all add: Let_def split_def heap_Date_now)

lemma massScoreEach_keys:
  "fst ` set (scores (fst (massScoreEach cs sc s res w))) =
     fst ` set (scores s) \<union> (\<lambda>c. ID_xA (heap w ! c)) ` set cs"
proof (induction cs arbitrary: s res w)
  case Nil
  then show ?case by simp
next
  case (Cons c cs)
  show ?case
    by (simp add: Let_def split_def Cons.IH keys_update Date_now_def)
qed

lemma massScore_undecided:
  "undecided (fst (snd (massScoreByAttribute s ty v sc nodes w))) = undecided s"
  by (simp add: massScoreByAttribute_def Let_def split_def massScoreEach_frame)

lemma massScore_selected:
  "selectedCandidates (fst (snd (massScoreByAttribute s ty v sc nodes w))) = selectedCandidates s"
  by (simp add: massScoreByAttribute_def Let_def split_def massScoreEach_frame)

lemma massScore_keys:
  "fst ` set (scores (fst (snd (massScoreByAttribute s ty v sc nodes w)))) =
     fst ` set (scores s) \<union> (\<lambda>c. ID_xA (heap w ! c)) ` set (massMatching s ty v nodes w)"
  by (simp add: massScoreByAttribute_def Let_def split_def massScoreEach_keys massMatching_def)

lemma advance_frame:
  "scores (fst (snd (advanceToNextBatch s w))) = scores s
   \<and> undecided (fst (snd (advanceToNextBatch s w))) = undecided s
   \<and> selectedCandidates (fst (snd (advanceToNextBatch s w))) = selectedCandidates s"
  by (simp add: advanceToNextBatch_def Let_def)

lemma nextBatch_frame:
  "scores (fst (snd (getNextBatchWithGridPositions s w))) = scores s
   \<and> undecided (fst (snd (getNextBatchWithGridPositions s w))) = undecided s
   \<and> selectedCandidates (fst (snd (getNextBatchWithGridPositions s w))) = selectedCandidates s"
  by (simp add: getNextBatchWithGridPositions_def Let_def split_def)

lemma removeFromBatch_frame:
  "scores (fst (snd (removeFromBatch s cid w))) = scores s
   \<and> undecided (fst (snd (removeFromBatch s cid w))) = undecided s
   \<and> selectedCandidates (fst (snd (removeFromBatch s cid w))) = selectedCandidates s"
  by (simp add: removeFromBatch_def Let_def)

lemma replaceInGrid_frame:
  "scores (fst (snd (replaceInGrid s cid w))) = scores s
   \<and> undecided (fst (snd (replaceInGrid s cid w))) = undecided s
   \<and> selectedCandidates (fst (snd (replaceInGrid s cid w))) = selectedCandidates s"
  by (simp add: replaceInGrid_def Let_def split_def split: option.splits)

lemma applyOp_selected:
  "selectedCandidates (fst (applyOp op st)) = selectedCandidates (fst st)"
  by (cases op)
     (simp_all add: scoreCandidate_selected skipCandidate_selected massScore_selected advance_frame
        nextBatch_frame removeFromBatch_frame replaceInGrid_frame)

lemma runOps_Cons: "runOps (op # ops) st = runOps ops (applyOp op st)"
  by (simp add: runOps_def)

lemma runOps_selected:
  "selectedCandidates (fst (runOps ops st)) = selectedCandidates (fst st)"
proof (induction ops arbitrary: st)
  case Nil
  then show ?case by (simp add: runOps_def)
next
  case (Cons op ops)
  then show ?case
    by (simp add: runOps_Cons applyOp_selected)
qed

lemma applyOp_exclusive:
  assumes "exclusive (fst st)" and "opKeepsApart op st"
  shows "exclusive (fst (applyOp op st))"
proof (cases op)
  case (ScoreCandidate cid sc)
  then show ?thesis
    using assms by (simp add: exclusive_def scoreCandidate_keys scoreCandidate_undecided)
next
  case (SkipCandidate cid)
  then show ?thesis
    using assms by (simp add: exclusive_def skipCandidate_scores skipCandidate_undecided set_setAdd mapHas_iff)
next
  case (MassScoreByAttribute ty v sc nodes)
  then show ?thesis
    using assms by (auto simp: exclusive_def massScore_keys massScore_undecided)
next
  case AdvanceToNextBatch
  then show ?thesis using assms by (simp add: exclusive_def advance_frame)
next
  case GetNextBatchWithGridPositions
  then show ?thesis using assms by (simp add: exclusive_def nextBatch_frame)
next
  case (RemoveFromBatch cid)
  then show ?thesis using assms by (simp add: exclusive_def removeFromBatch_frame)
next
  case (ReplaceInGrid cid)
  then show ?thesis using assms by (simp add: exclusive_def replaceInGrid_frame)
qed

lemma runOps_exclusive:
  "exclusive (fst st) \<Longrightarrow> keptApart ops st \<Longrightarrow> exclusive (fst (runOps ops st))"
proof (induction ops arbitrary: st)
  case Nil
  then show ?case by (simp add: runOps_def)
next
  case (Cons op ops)
  have step: "exclusive (fst (applyOp op st))"
    using applyOp_exclusive [of st op] Cons.prems by simp
  show ?case
    using Cons.IH [OF step] Cons.prems by (simp add: runOps_Cons)
qed

lemma keptApart_take: "keptApart ops st \<Longrightarrow> keptApart (take k ops) st"
proof (induction ops arbitrary: st k)
  case Nil
  then show ?case by simp
next
  case (Cons op ops)
  then show ?case by (cases k) simp_all
qed

lemma createSession_fresh:
  "createSession allCandidates opts w = (Inr s, w') \<Longrightarrow> scores s = [] \<and> undecided s = [] \<and> completedAt s = None"
  by (auto simp: createSession_def Let_def split_def split: if_splits)

subsection \<open>The sample sessions\<close>

lemma trim_node: "trim ''node'' = ''node''"
  by (simp add: trim_def isWhiteSpace_def)

lemma sessionOptions_none: "sessionOptions noOptions w = (DEFAULT_SESSION_OPTIONS, GRID_CAPACITY, w)"
  by (simp add: sessionOptions_def mergeOptions_def noOptions_def DEFAULT_SESSION_OPTIONS_def DEFAULT_batchSize_def)

lemma filter_single: "filterCandidates [0] DEFAULT_SESSION_OPTIONS singleWorld = ([0], singleWorld)"
  by (simp add: filterCandidates_def orderedCandidates_def eligibleCandidates_def applySelectionMethod_def
      applyGroupFilter_def applyRankFilter_def applyAIScoreThreshold_def keepsAIScore_def hasValidName_def
      DEFAULT_SESSION_OPTIONS_def singleWorld_def sampleWorld_def sampleCandidate_def trim_node isEmptyValue_def
      js_slice_def Let_def parseIntString_samples)

lemma created_single: "fst (createSession [0] noOptions singleWorld) = Inr singleSession"
  by (simp add: createSession_def sessionOptions_none filter_single Let_def Date_now_def clearSession_def
      singleSession_def)
     (simp add: singleWorld_def sampleWorld_def sampleCandidate_def)

lemma filter_pair: "filterCandidates pairRefs DEFAULT_SESSION_OPTIONS pairWorld = ([1, 0], pairWorld)"
  by (simp add: filterCandidates_def orderedCandidates_def eligibleCandidates_def applySelectionMethod_def
      applyGroupFilter_def applyRankFilter_def applyAIScoreThreshold_def keepsAIScore_def hasValidName_def
      DEFAULT_SESSION_OPTIONS_def pairWorld_def pairRefs_def sampleWorld_def sampleCandidate_def trim_node
      isEmptyValue_def js_slice_def Let_def parseIntOrZero_def parseIntString_samples)

lemma created_pair: "fst (createSession pairRefs noOptions pairWorld) = Inr pairSession"
  by (simp add: createSession_def sessionOptions_none filter_pair Let_def Date_now_def clearSession_def
      pairSession_def)
     (simp add: pairWorld_def sampleWorld_def sampleCandidate_def)

lemma singleScored_completed: "completedAt (fst (snd singleScored)) \<noteq> None"
  by (simp add: singleScored_def scoreCandidate_def mapHas_def Date_now_def Let_def split_def singleSession_def)

section \<open>Scoring one candidate\<close>

text \<open>
  Claim C6. When the id already has a score, \<open>scoreCandidate\<close> returns the failure result
  \<open>{success: false, error: 'Already scored'}\<close> and leaves the session and the world as they
  were, so the stored entry is unchanged; the function is total, so nothing is thrown.
  When the id has no score yet, the call succeeds and the entry of the id is the given
  score with the clock's reading and the wave number \<open>currentBatchIndex + 1\<close>.
\<close>

theorem scoreCandidate_rejects_or_records:
  "(mapHas (scores s) cid \<longrightarrow>
      scoreCandidate s cid sc w = (\<lparr>success = False, evaluationComplete = None, error = Some ''Already scored''\<rparr>, s, w))
   \<and> (\<not> mapHas (scores s) cid \<longrightarrow>
      success (fst (scoreCandidate s cid sc w)) \<and>
      map_of (scores (fst (snd (scoreCandidate s cid sc w)))) cid =
        Some \<lparr>score = sc, timestamp = clock w (ticks w), waveNumber = currentBatchIndex s + 1, massScored = False\<rparr>)"
  by (simp add: scoreCandidate_rejected scoreCandidate_scores scoreCandidate_success map_of_update_same)

theorem scoreCandidate_rejects_or_records_witness:
  "\<not> mapHas (scores pairSession) ''A''
   \<and> success (fst (scoreCandidate pairSession ''A'' (JSNumber ''2'') pairWorld))
   \<and> map_of (scores (fst (snd (scoreCandidate pairSession ''A'' (JSNumber ''2'') pairWorld)))) ''A'' =
       Some \<lparr>score = JSNumber ''2'', timestamp = 1000, waveNumber = 1, massScored = False\<rparr>
   \<and> mapHas (scores (fst (snd pairScored))) ''A''
   \<and> scoreCandidate (fst (snd pairScored)) ''A'' (JSNumber ''3'') (snd (snd pairScored)) =
       (\<lparr>success = False, evaluationComplete = None, error = Some ''Already scored''\<rparr>, fst (snd pairScored), snd (snd pairScored))"
proof -
  have fresh: "\<not> mapHas (scores pairSession) ''A''"
    by (simp add: mapHas_def pairSession_def)
  have scored: "mapHas (scores (fst (snd pairScored))) ''A''"
    by (simp add: pairScored_def mapHas_iff scoreCandidate_keys)
  show ?thesis
    using fresh scored
      scoreCandidate_rejects_or_records [of pairSession "''A''" "JSNumber ''2''" pairWorld]
      scoreCandidate_rejects_or_records [of "fst (snd pairScored)" "''A''" "JSNumber ''3''" "snd (snd pairScored)"]
    by (simp add: pairWorld_def sampleWorld_def pairSession_def)
qed

text \<open>
  Claim C10. For an id without a score, \<open>scoreCandidate\<close> succeeds whatever the score
  argument is (a number outside 0 to 3, a string, \<open>null\<close>, \<open>undefined\<close>, \<open>NaN\<close>) and the
  entry of the id holds that very value: the argument is not validated.
\<close>

theorem scoreCandidate_stores_any_score:
  assumes "\<not> mapHas (scores s) cid"
  shows "success (fst (scoreCandidate s cid v w)) \<and>
         error (fst (scoreCandidate s cid v w)) = None \<and>
         map_option score (map_of (scores (fst (snd (scoreCandidate s cid v w)))) cid) = Some v"
  using assms by (simp add: scoreCandidate_scores scoreCandidate_success map_of_update_same)

theorem scoreCandidate_stores_any_score_witness:
  "\<not> mapHas (scores pairSession) ''B''
   \<and> success (fst (scoreCandidate pairSession ''B'' (JSString ''great'') pairWorld))
   \<and> map_option score (map_of (scores (fst (snd (scoreCandidate pairSession ''B'' (JSString ''great'') pairWorld)))) ''B'')
       = Some (JSString ''great'')
   \<and> map_option score (map_of (scores (fst (snd (scoreCandidate pairSession ''B'' (JSNumber ''-7'') pairWorld)))) ''B'')
       = Some (JSNumber ''-7'')"
proof -
  have fresh: "\<not> mapHas (scores pairSession) ''B''"
    by (simp add: mapHas_def pairSession_def)
  show ?thesis
    using fresh
      scoreCandidate_stores_any_score [OF fresh, of "JSString ''great''" pairWorld]
      scoreCandidate_stores_any_score [OF fresh, of "JSNumber ''-7''" pairWorld]
    by simp
qed

section \<open>A completed session\<close>

text \<open>
  Claim C2, as the code has it. The claim says that on a completed session a call of
  \<open>scoreCandidate\<close> or \<open>skipCandidate\<close> is rejected or changes nothing. Neither function
  looks at \<open>completedAt\<close>: in the session that is complete after its only candidate was
  scored, skipping that candidate succeeds and puts the id into \<open>undecided\<close>.
\<close>

theorem completed_session_changed_counterexample:
  "fst (createSession [0] noOptions singleWorld) = Inr singleSession
   \<and> completedAt (fst (snd singleScored)) \<noteq> None
   \<and> undecided (fst (snd singleScored)) = []
   \<and> success (fst (skipCandidate (fst (snd singleScored)) ''A'' (snd (snd singleScored))))
   \<and> undecided (fst (snd (skipCandidate (fst (snd singleScored)) ''A'' (snd (snd singleScored))))) = [''A'']"
  by (simp add: created_single singleScored_completed skipCandidate_success skipCandidate_undecided)
     (simp add: singleScored_def scoreCandidate_undecided singleSession_def setAdd_def)

text \<open>
  What holds instead: on a completed session neither call sets \<open>completedAt\<close> back to
  \<open>null\<close>; \<open>scoreCandidate\<close> leaves \<open>undecided\<close> alone and \<open>skipCandidate\<close> leaves
  \<open>scores\<close> alone; \<open>scoreCandidate\<close> with an id that has a score is rejected and changes
  nothing, and \<open>skipCandidate\<close> with an id that was skipped leaves \<open>undecided\<close> as it is;
  with any other id the call is accepted (it returns \<open>success: true\<close>, as every call of
  \<open>skipCandidate\<close> does) and adds exactly that id, \<open>scoreCandidate\<close> storing the given score.
\<close>

theorem completed_session_after_score_or_skip:
  assumes "completedAt s \<noteq> None"
  shows "completedAt (fst (snd (scoreCandidate s cid sc w))) \<noteq> None
       \<and> completedAt (fst (snd (skipCandidate s cid w))) \<noteq> None
       \<and> undecided (fst (snd (scoreCandidate s cid sc w))) = undecided s
       \<and> scores (fst (snd (skipCandidate s cid w))) = scores s
       \<and> (mapHas (scores s) cid \<longrightarrow> \<not> success (fst (scoreCandidate s cid sc w)) \<and> snd (scoreCandidate s cid sc w) = (s, w))
       \<and> (cid \<in> set (undecided s) \<longrightarrow> undecided (fst (snd (skipCandidate s cid w))) = undecided s)
       \<and> fst ` set (scores (fst (snd (scoreCandidate s cid sc w)))) = insert cid (fst ` set (scores s))
       \<and> set (undecided (fst (snd (skipCandidate s cid w)))) = insert cid (set (undecided s))
       \<and> (\<not> mapHas (scores s) cid \<longrightarrow>
            success (fst (scoreCandidate s cid sc w))
            \<and> map_option score (map_of (scores (fst (snd (scoreCandidate s cid sc w)))) cid) = Some sc)
       \<and> success (fst (skipCandidate s cid w))"
  using assms
  by (simp add: scoreCandidate_completedAt skipCandidate_completedAt scoreCandidate_undecided skipCandidate_scores
      scoreCandidate_rejected skipCandidate_undecided scoreCandidate_keys set_setAdd scoreCandidate_success
      skipCandidate_success scoreCandidate_scores map_of_update_same)
     (simp add: setAdd_def)

theorem completed_session_after_score_or_skip_witness:
  "completedAt (fst (snd singleScored)) \<noteq> None
   \<and> mapHas (scores (fst (snd singleScored))) ''A''
   \<and> \<not> success (fst (scoreCandidate (fst (snd singleScored)) ''A'' (JSNumber ''3'') (snd (snd singleScored))))
   \<and> snd (scoreCandidate (fst (snd singleScored)) ''A'' (JSNumber ''3'') (snd (snd singleScored))) = snd singleScored
   \<and> completedAt (fst (snd (skipCandidate (fst (snd singleScored)) ''A'' (snd (snd singleScored))))) \<noteq> None
   \<and> set (undecided (fst (snd (skipCandidate (fst (snd singleScored)) ''A'' (snd (snd singleScored)))))) = {''A''}
   \<and> success (fst (skipCandidate (fst (snd singleScored)) ''A'' (snd (snd singleScored))))
   \<and> \<not> mapHas (scores (fst (snd singleScored))) ''B''
   \<and> success (fst (scoreCandidate (fst (snd singleScored)) ''B'' (JSNumber ''3'') (snd (snd singleScored))))
   \<and> fst ` set (scores (fst (snd (scoreCandidate (fst (snd singleScored)) ''B'' (JSNumber ''3'') (snd (snd singleScored))))))
        = {''A'', ''B''}"
proof -
  have scored: "mapHas (scores (fst (snd singleScored))) ''A''"
    by (simp add: singleScored_def mapHas_iff scoreCandidate_keys)
  have none: "undecided (fst (snd singleScored)) = []"
    by (simp add: singleScored_def scoreCandidate_undecided singleSession_def)
  have other: "\<not> mapHas (scores (fst (snd singleScored))) ''B''"
    by (simp add: singleScored_def mapHas_iff scoreCandidate_keys) (simp add: singleSession_def)
  have keys: "fst ` set (scores (fst (snd singleScored))) = {''A''}"
    by (simp add: singleScored_def scoreCandidate_keys) (simp add: singleSession_def)
  show ?thesis
    using scored none other keys singleScored_completed
      completed_session_after_score_or_skip [OF singleScored_completed, of "''A''" "JSNumber ''3''" "snd (snd singleScored)"]
      completed_session_after_score_or_skip [OF singleScored_completed, of "''B''" "JSNumber ''3''" "snd (snd singleScored)"]
    by auto
qed

section \<open>Scores and skips\<close>

text \<open>
  Claim C1, as the code has it. The claim says that no id is ever both a key of \<open>scores\<close>
  and in \<open>undecided\<close>. \<open>skipCandidate\<close> adds the id without looking at \<open>scores\<close>, and
  \<open>scoreCandidate\<close> and \<open>massScoreByAttribute\<close> do not look at \<open>undecided\<close>: after
  scoring \<open>A\<close> and then skipping \<open>A\<close> in a session of two candidates, \<open>A\<close> is in both.
\<close>

theorem exclusive_counterexample:
  "fst (createSession pairRefs noOptions pairWorld) = Inr pairSession
   \<and> \<not> exclusive (fst (runOps [ScoreCandidate ''A'' (JSNumber ''2''), SkipCandidate ''A'']
                              (pairSession, snd (createSession pairRefs noOptions pairWorld))))"
  by (simp add: created_pair runOps_def exclusive_def scoreCandidate_keys skipCandidate_scores
      skipCandidate_undecided set_setAdd)

text \<open>
  What holds instead: in a session made by \<open>createSession\<close>, after every prefix of a
  sequence of engine operations in which the caller never skips an id that has a score and
  never scores (singly or by mass-scoring) an id that was skipped, no id is both a key of
  \<open>scores\<close> and in \<open>undecided\<close>.
\<close>

theorem exclusive_while_kept_apart:
  assumes "createSession allCandidates opts w = (Inr s, w')"
    and "keptApart ops (s, w')"
  shows "exclusive (fst (runOps (take k ops) (s, w')))"
proof -
  have "exclusive s"
    using createSession_fresh [OF assms(1)] by (simp add: exclusive_def)
  then show ?thesis
    using runOps_exclusive [of "(s, w')" "take k ops"] keptApart_take [OF assms(2)] by simp
qed

theorem exclusive_while_kept_apart_witness:
  "createSession pairRefs noOptions pairWorld = (Inr pairSession, snd (createSession pairRefs noOptions pairWorld))
   \<and> keptApart [ScoreCandidate ''A'' (JSNumber ''2''), SkipCandidate ''B'']
        (pairSession, snd (createSession pairRefs noOptions pairWorld))
   \<and> exclusive (fst (runOps [ScoreCandidate ''A'' (JSNumber ''2''), SkipCandidate ''B'']
                        (pairSession, snd (createSession pairRefs noOptions pairWorld))))"
proof -
  have made: "createSession pairRefs noOptions pairWorld = (Inr pairSession, snd (createSession pairRefs noOptions pairWorld))"
    by (simp add: prod_eq_iff created_pair)
  have apart: "keptApart [ScoreCandidate ''A'' (JSNumber ''2''), SkipCandidate ''B'']
                 (pairSession, snd (createSession pairRefs noOptions pairWorld))"
    by (simp add: mapHas_iff scoreCandidate_keys) (simp add: pairSession_def)
  show ?thesis
    using made apart exclusive_while_kept_apart [OF made apart, of 2] by simp
qed

section \<open>The grid allocator\<close>

lemma of_char_digit: "d < 10 \<Longrightarrow> (of_char (digitChar d) :: nat) = 48 + d"
  by (simp add: digitChar_def of_char_of)

lemma decimal_small: "n < 10 \<Longrightarrow> decimal n = [digitChar n]"
  by (subst decimal.simps) (simp only: if_True)

lemma decimal_large: "\<not> n < 10 \<Longrightarrow> decimal n = decimal (n div 10) @ [digitChar (n mod 10)]"
  by (subst decimal.simps) (simp only: if_False)

lemma undecimal_snoc: "undecimal (s @ [c]) = 10 * undecimal s + (of_char c - 48)"
  by (simp only: undecimal_def foldl_append foldl.simps)

lemma undecimal_single: "undecimal [c] = of_char c - 48"
  by (simp only: undecimal_def foldl.simps)

lemma undecimal_decimal: "undecimal (decimal n) = n"
proof (induction n rule: decimal.induct)
  case (1 n)
  show ?case
  proof (cases "n < 10")
    case True
    have "undecimal (decimal n) = of_char (digitChar n) - 48"
      by (simp only: decimal_small [OF True] undecimal_single)
    also have "\<dots> = 48 + n - 48"
      by (simp only: of_char_digit [OF True])
    also have "\<dots> = n" by simp
    finally show ?thesis .
  next
    case False
    have m: "n mod 10 < 10" by simp
    have "undecimal (decimal n) = 10 * undecimal (decimal (n div 10)) + (of_char (digitChar (n mod 10)) - 48)"
      by (simp only: decimal_large [OF False] undecimal_snoc)
    also have "\<dots> = 10 * (n div 10) + (48 + n mod 10 - 48)"
      by (simp only: 1 [OF False] of_char_digit [OF m])
    also have "\<dots> = n" by simp
    finally show ?thesis .
  qed
qed

lemma decimal_inj:
  assumes "decimal m = decimal n"
  shows "m = n"
proof -
  have "m = undecimal (decimal m)" by (simp only: undecimal_decimal)
  also have "\<dots> = undecimal (decimal n)" by (simp only: assms)
  also have "\<dots> = n" by (rule undecimal_decimal)
  finally show ?thesis .
qed

lemma digit_not_comma: "d < 10 \<Longrightarrow> digitChar d \<noteq> CHR '',''"
proof
  assume d: "d < 10" and eq: "digitChar d = CHR '',''"
  have "(of_char (digitChar d) :: nat) = of_char CHR '',''"
    by (simp only: eq)
  then have "48 + d = (of_char CHR '','' :: nat)"
    by (simp only: of_char_digit [OF d])
  then show False
    by simp
qed

lemma comma_notin_decimal: "CHR '','' \<notin> set (decimal n)"
proof (induction n rule: decimal.induct)
  case (1 n)
  show ?case
  proof (cases "n < 10")
    case True
    show ?thesis
      using digit_not_comma [OF True] by (simp only: decimal_small [OF True]) simp
  next
    case False
    have m: "n mod 10 < 10" by simp
    show ?thesis
      using 1 [OF False] digit_not_comma [OF m] by (simp only: decimal_large [OF False]) simp
  qed
qed

lemma split_at_unique:
  "x \<notin> set a \<Longrightarrow> x \<notin> set a' \<Longrightarrow> a @ x # b = a' @ x # b' \<Longrightarrow> a = a' \<and> b = b'"
proof (induction a arbitrary: a')
  case Nil
  then show ?case by (cases a') auto
next
  case (Cons y a)
  then show ?case by (cases a') auto
qed

lemma cellKey_numbers: "cellKey (JSNumber (decimal r)) (JSNumber (decimal c)) = decimal r @ CHR '','' # decimal c"
  by (simp add: cellKey_def)

lemma cellKey_inj:
  assumes "cellKey (JSNumber (decimal r)) (JSNumber (decimal c)) = cellKey (JSNumber (decimal r')) (JSNumber (decimal c'))"
  shows "r = r' \<and> c = c'"
proof -
  have "decimal r @ CHR '','' # decimal c = decimal r' @ CHR '','' # decimal c'"
    using assms by (simp only: cellKey_numbers)
  then have "decimal r = decimal r' \<and> decimal c = decimal c'"
    by (rule split_at_unique [OF comma_notin_decimal comma_notin_decimal])
  then show ?thesis
    by (blast dest: decimal_inj)
qed

lemma gridCoords_product:
  "gridCoords n = map (\<lambda>(r, c). (JSNumber (decimal r), JSNumber (decimal c))) (List.product [0..<n] [0..<n])"
  by (simp add: gridCoords_def product_concat_map map_concat comp_def)

lemma cellKeys_gridCoords:
  "cellKeys (gridCoords n) = map (\<lambda>(r, c). cellKey (JSNumber (decimal r)) (JSNumber (decimal c))) (List.product [0..<n] [0..<n])"
  by (simp add: gridCoords_product cellKeys_def comp_def split_def)

lemma distinct_gridKeys: "distinct (cellKeys (gridCoords n))"
proof -
  have "inj_on (\<lambda>(r, c). cellKey (JSNumber (decimal r)) (JSNumber (decimal c))) (set (List.product [0..<n] [0..<n]))"
    by (rule inj_onI) (auto dest: cellKey_inj)
  then show ?thesis
    by (simp only: cellKeys_gridCoords distinct_map distinct_product distinct_upt simp_thms)
qed

lemma length_gridCoords: "length (gridCoords n) = n * n"
  by (simp add: gridCoords_product)

lemma mset_keys_update:
  "image_mset fst (mset (AList.update k v al)) =
     (if k \<in> fst ` set al then image_mset fst (mset al) else add_mset k (image_mset fst (mset al)))"
  by (induction al) auto

lemma mset_keys_delete:
  "image_mset fst (mset (AList.delete k al)) = filter_mset (\<lambda>x. x \<noteq> k) (image_mset fst (mset al))"
  by (induction al) auto

lemma filter_mset_single:
  "count A k = 1 \<Longrightarrow> filter_mset (\<lambda>x. x \<noteq> k) A = A - {#k#}"
  by (rule multiset_eqI) auto

lemma mset_remove_nth:
  assumes "i < length xs"
  shows "mset (take i xs @ drop (Suc i) xs) = mset xs - {#xs ! i#}"
proof -
  have "mset xs = mset (take i xs @ xs ! i # drop (Suc i) xs)"
    using id_take_nth_drop [OF assms] by simp
  then show ?thesis by simp
qed

lemma once_left:
  assumes "\<forall>k. count (A + B) k \<le> 1" and "k \<in># A"
  shows "k \<notin># B"
proof -
  have "1 \<le> count A k" using assms(2) by (simp add: Suc_le_eq)
  moreover have "count A k + count B k \<le> 1" using assms(1) by (simp flip: count_union)
  ultimately have "count B k = 0" by arith
  then show ?thesis by (simp add: count_eq_zero_iff)
qed

lemma once_right:
  assumes "\<forall>k. count (A + B) k \<le> 1" and "k \<in># B"
  shows "count B k = 1"
proof -
  have "1 \<le> count B k" using assms(2) by (simp add: Suc_le_eq)
  moreover have "count A k + count B k \<le> 1" using assms(1) by (simp flip: count_union)
  ultimately show ?thesis by arith
qed

lemma assign_keeps_keys:
  assumes "gridKeys g = M" and "\<forall>k. count M k \<le> 1"
  shows "gridKeys (fst (snd (assignGridCell cand g w))) = M"
proof (cases "availableCells g = []")
  case True
  then show ?thesis using assms by (simp add: assignGridCell_def)
next
  case False
  define idx where "idx = rng w (draws w) mod length (availableCells g)"
  define cell where "cell = availableCells g ! idx"
  define key where "key = cellKey (fst cell) (snd cell)"
  have idx: "idx < length (availableCells g)"
    using False by (simp add: idx_def)
  have nth: "cellKeys (availableCells g) ! idx = key"
    using idx by (simp add: cellKeys_def key_def cell_def split_def)
  have key_av: "key \<in># mset (cellKeys (availableCells g))"
    using idx nth by (metis length_map cellKeys_def nth_mem set_mset_mset)
  have once: "\<forall>k. count (mset (cellKeys (availableCells g)) + mset (map fst (cells g))) k \<le> 1"
    using assms by (simp add: gridKeys_def)
  have notin: "key \<notin> fst ` set (cells g)"
    using once_left [OF once key_av] by simp
  have av: "mset (cellKeys (take idx (availableCells g) @ drop (Suc idx) (availableCells g))) =
              mset (cellKeys (availableCells g)) - {#key#}"
    using mset_remove_nth [of idx "cellKeys (availableCells g)"] idx nth
    by (simp add: cellKeys_def take_map drop_map)
  have "gridKeys (fst (snd (assignGridCell cand g w))) =
          (mset (cellKeys (availableCells g)) - {#key#}) + add_mset key (mset (map fst (cells g)))"
    using False notin av
    by (simp add: assignGridCell_def randomIndex_def Let_def gridKeys_def mset_keys_update
        idx_def [symmetric] cell_def [symmetric] key_def [symmetric])
  also have "\<dots> = gridKeys g"
    using key_av by (simp add: gridKeys_def)
  finally show ?thesis using assms(1) by simp
qed

lemma release_keeps_keys:
  assumes "gridKeys g = M" and "\<forall>k. count M k \<le> 1"
  shows "gridKeys (releaseGridCell row col g) = M"
proof (cases "cellKey row col \<in> fst ` set (cells g)")
  case False
  then show ?thesis
    using assms by (simp add: releaseGridCell_def map_of_eq_None_iff)
next
  case True
  define key where "key = cellKey row col"
  have in_cells: "key \<in># mset (map fst (cells g))"
    using True by (simp add: key_def)
  have once: "\<forall>k. count (mset (cellKeys (availableCells g)) + mset (map fst (cells g))) k \<le> 1"
    using assms by (simp add: gridKeys_def)
  have one: "count (mset (map fst (cells g))) key = 1"
    by (rule once_right [OF once in_cells])
  have "gridKeys (releaseGridCell row col g) =
          add_mset key (mset (cellKeys (availableCells g))) + (mset (map fst (cells g)) - {#key#})"
    using True one
    by (simp add: releaseGridCell_def map_of_eq_None_iff gridKeys_def mset_keys_delete filter_mset_single
        cellKeys_def key_def [symmetric] Let_def)
  also have "\<dots> = gridKeys g"
    using in_cells by (simp add: gridKeys_def)
  finally show ?thesis using assms(1) by simp
qed

lemma runGridOps_keeps_keys:
  assumes "\<forall>k. count M k \<le> 1"
  shows "gridKeys (fst st) = M \<Longrightarrow> gridKeys (fst (runGridOps ops st)) = M"
proof (induction ops arbitrary: st)
  case Nil
  then show ?case by (simp add: runGridOps_def)
next
  case (Cons op ops)
  have step: "gridKeys (fst (applyGridOp op st)) = M"
  proof (cases op)
    case (Assign cand)
    then show ?thesis
      using assign_keeps_keys [OF Cons.prems assms] by simp
  next
    case (Release row col)
    then show ?thesis
      using release_keeps_keys [OF Cons.prems assms] by simp
  qed
  have "runGridOps (op # ops) st = runGridOps ops (applyGridOp op st)"
    by (simp add: runGridOps_def)
  then show ?case
    using Cons.IH [OF step] by simp
qed

text \<open>
  Claim C4. A grid starts with every coordinate free (\<open>initGrid\<close> is the grid of size
  \<open>GRID_SIZE\<close>; the statement holds for every size). After any finite sequence of
  \<open>assignGridCell\<close> and \<open>releaseGridCell\<close> calls, whatever the random draws and whatever
  the arguments of the releases, the keys of the free cells together with the keys of
  \<open>cells\<close> are the keys of the coordinate space, each exactly once: the two collections
  have no duplicate, share no key and miss none. Different coordinates have different keys,
  and there are \<open>n * n\<close> of them.
\<close>

theorem grid_partition:
  "gridKeys (fst (runGridOps ops (initGridOf n, w))) = mset (cellKeys (gridCoords n))
   \<and> distinct (cellKeys (availableCells (fst (runGridOps ops (initGridOf n, w))))
                 @ map fst (cells (fst (runGridOps ops (initGridOf n, w)))))
   \<and> distinct (cellKeys (gridCoords n))
   \<and> length (gridCoords n) = n * n
   \<and> initGrid = initGridOf GRID_SIZE"
proof -
  have once: "\<forall>k. count (mset (cellKeys (gridCoords n))) k \<le> 1"
    using distinct_gridKeys [of n] by (simp add: distinct_count_atmost_1)
  have start: "gridKeys (fst (initGridOf n, w)) = mset (cellKeys (gridCoords n))"
    by (simp add: gridKeys_def initGridOf_def)
  have keys: "gridKeys (fst (runGridOps ops (initGridOf n, w))) = mset (cellKeys (gridCoords n))"
    by (rule runGridOps_keeps_keys [OF once start])
  then have "mset (cellKeys (availableCells (fst (runGridOps ops (initGridOf n, w))))
                 @ map fst (cells (fst (runGridOps ops (initGridOf n, w))))) = mset (cellKeys (gridCoords n))"
    by (simp add: gridKeys_def)
  then have "distinct (cellKeys (availableCells (fst (runGridOps ops (initGridOf n, w))))
                 @ map fst (cells (fst (runGridOps ops (initGridOf n, w)))))"
    using distinct_gridKeys [of n] by (metis mset_eq_imp_distinct_iff)
  then show ?thesis
    using keys distinct_gridKeys [of n] length_gridCoords [of n] by (simp add: initGrid_def)
qed

section \<open>The seeded shuffle\<close>

lemma mulberry32_bound: "fst (mulberry32 seed) < 4294967296"
proof -
  have "unat (w :: 32 word) < 4294967296" for w
    using unsigned_less [of w, where 'a = nat] by simp
  then show ?thesis
    by (simp add: mulberry32_def Let_def)
qed

lemma shuffleFrom_length: "length (shuffleFrom i seed arr) = length arr"
  by (induction i seed arr rule: shuffleFrom.induct) (simp_all add: Let_def split_def)

lemma random_index_bound:
  assumes "u < (4294967296 :: nat)"
  shows "(u * (Suc i + 1)) div 4294967296 < Suc i + 1"
proof -
  have "u * (Suc i + 1) < 4294967296 * (Suc i + 1)"
    by (rule mult_strict_right_mono) (use assms in simp_all)
  then have "u * (Suc i + 1) < (Suc i + 1) * 4294967296"
    by (simp only: mult.commute)
  then show ?thesis
    by (rule less_mult_imp_div_less)
qed

lemma shuffleFrom_mset: "i < length arr \<Longrightarrow> mset (shuffleFrom i seed arr) = mset arr"
proof (induction i seed arr rule: shuffleFrom.induct)
  case (1 seed array)
  then show ?case by simp
next
  case (2 i seed array)
  define u where "u = fst (mulberry32 seed)"
  define j where "j = (u * (Suc i + 1)) div 4294967296"
  define swapped where "swapped = (array[Suc i := array ! j])[j := array ! Suc i]"
  have "j < Suc i + 1"
    unfolding j_def u_def by (rule random_index_bound [OF mulberry32_bound])
  then have j: "j < length array" using "2.prems" by simp
  have sw: "mset swapped = mset array"
    unfolding swapped_def using mset_swap [OF j "2.prems"] .
  have len: "i < length swapped"
    using "2.prems" by (simp add: swapped_def)
  have "shuffleFrom (Suc i) seed array = shuffleFrom i (snd (mulberry32 seed)) swapped"
    by (simp add: Let_def split_def swapped_def j_def u_def)
  moreover have "mset (shuffleFrom i (snd (mulberry32 seed)) swapped) = mset swapped"
    using "2.IH" [of "mulberry32 seed" u "snd (mulberry32 seed)" j "array ! Suc i"] len
    by (simp add: u_def j_def swapped_def)
  ultimately show ?case using sw by simp
qed

lemma shuffleFrom_step:
  assumes "mulberry32 seed = (u, seed')" and "j = (u * (Suc i + 1)) div 4294967296"
  shows "shuffleFrom (Suc i) seed array = shuffleFrom i seed' ((array[Suc i := array ! j])[j := array ! Suc i])"
  using assms by (simp add: Let_def)

lemma mulberry32_42: "mulberry32 42 = (2581720956, 1831565855)"
  by (simp add: mulberry32_def Let_def)

lemma mulberry32_next: "mulberry32 1831565855 = (1925393290, 3663131668)"
  by (simp add: mulberry32_def Let_def)

lemma shuffle_sample: "shuffleFrom (Suc (Suc 0)) 42 [a, b, c] = [c, a, b]"
proof -
  have j1: "Suc 0 = (2581720956 * (Suc (Suc 0) + 1)) div 4294967296"
    by simp
  have j2: "0 = (1925393290 * (Suc 0 + 1)) div (4294967296 :: nat)"
    by simp
  have "shuffleFrom (Suc (Suc 0)) 42 [a, b, c] = shuffleFrom (Suc 0) 1831565855 [a, c, b]"
    by (simp add: shuffleFrom_step [OF mulberry32_42 j1] del: shuffleFrom.simps)
  also have "\<dots> = shuffleFrom 0 3663131668 [c, a, b]"
    by (simp add: shuffleFrom_step [OF mulberry32_next j2] del: shuffleFrom.simps)
  also have "\<dots> = [c, a, b]"
    by simp
  finally show ?thesis .
qed

lemma applySelectionMethod_random:
  "applySelectionMethod arrays a ''random'' (Some S) w =
     ((arrays @ [arrays ! a])[length arrays := shuffleFrom (length (arrays ! a) - 1) S (arrays ! a)], length arrays, w)"
  by (simp add: applySelectionMethod_def seededShuffle_def Let_def)

lemma shuffle_mset: "mset (shuffleFrom (length arr - Suc 0) S arr) = mset arr"
proof (cases "arr = []")
  case True
  then show ?thesis by simp
next
  case False
  then have "length arr - Suc 0 < length arr" by simp
  then show ?thesis by (rule shuffleFrom_mset)
qed

text \<open>
  Claim C8. The selection policy with the method \<open>random\<close> and an explicit seed, applied
  twice to the same input array (the second time in the store the first call left, at any
  later state of the clock), returns two new arrays with the same contents, a permutation
  of the input; the input array is as it was after each call, because the shuffle works on
  a copy.
\<close>

theorem seeded_selection_reproducible:
  assumes "a < length arrays"
  shows "(case selectRandomTwice arrays a S w w' of
            (arrays2, r1, r2) \<Rightarrow>
              arrays2 ! r1 = arrays2 ! r2
              \<and> mset (arrays2 ! r1) = mset (arrays ! a)
              \<and> arrays2 ! a = arrays ! a
              \<and> r1 \<noteq> a \<and> r2 \<noteq> a \<and> r1 \<noteq> r2)
         \<and> fst (applySelectionMethod arrays a ''random'' (Some S) w) ! a = arrays ! a
         \<and> fst (applySelectionMethod arrays a ''random'' (Some S) w)
              ! fst (snd (applySelectionMethod arrays a ''random'' (Some S) w))
            = shuffleFrom (length (arrays ! a) - 1) S (arrays ! a)"
  using assms
  by (simp add: selectRandomTwice_def applySelectionMethod_random nth_append nth_list_update shuffle_mset)

theorem seeded_selection_reproducible_witness:
  "(0::nat) < length [[10, 11, 12 :: nat]]
   \<and> selectRandomTwice [[10, 11, 12]] 0 42 (sampleWorld []) (sampleWorld []) =
       ([[10, 11, 12], [12, 10, 11], [12, 10, 11]], 1, 2)
   \<and> fst (applySelectionMethod [[10, 11, 12]] 0 ''random'' (Some 42) (sampleWorld [])) ! 0 = [10, 11, 12]"
proof -
  have len: "(0::nat) < length [[10, 11, 12 :: nat]]" by simp
  have twice: "selectRandomTwice [[10, 11, 12]] 0 42 (sampleWorld []) (sampleWorld []) =
                 ([[10, 11, 12], [12, 10, 11], [12, 10, 11]], 1, 2)"
    by (simp add: selectRandomTwice_def applySelectionMethod_random shuffle_sample del: shuffleFrom.simps)
  show ?thesis
    using len twice seeded_selection_reproducible [OF len, of 42 "sampleWorld []" "sampleWorld []"]
    by simp
qed

section \<open>The selection count\<close>

lemma createSession_cases:
  assumes "sessionOptions opts w = (options, bsize, w1)"
  shows "(fst (filterCandidates allCandidates options w1) = [] \<longrightarrow> isl (fst (createSession allCandidates opts w)))
       \<and> (fst (filterCandidates allCandidates options w1) \<noteq> [] \<longrightarrow>
            (\<exists>s. fst (createSession allCandidates opts w) = Inr s
                 \<and> selectedCandidates s = fst (filterCandidates allCandidates options w1)))"
  using assms by (simp add: createSession_def Let_def split_def)

lemma filterCandidates_take:
  "0 \<le> selectionCount options \<Longrightarrow>
   fst (filterCandidates allCandidates options w) =
     take (nat (selectionCount options)) (fst (orderedCandidates allCandidates options w))"
  by (simp add: filterCandidates_def split_def js_slice_def Let_def min_def)

lemma sessionOptions_count:
  "sessionOptions opts w = (options, bsize, w1) \<Longrightarrow>
   selectionCount options = (case given_selectionCount opts of None \<Rightarrow> 50 | Some n \<Rightarrow> n)"
  by (auto simp: sessionOptions_def mergeOptions_def DEFAULT_SESSION_OPTIONS_def Let_def split_def
      split: if_splits option.splits)

text \<open>
  The selected candidates of a new session. The options are merged with the defaults
  first. With a count that is not negative, a session is created exactly when the first
  \<open>count\<close> candidates of the filtered and ordered array are not empty; its selected
  candidates are those first \<open>count\<close> candidates; and no operation on the session
  changes them afterwards.
\<close>

lemma createSession_selected_prefix:
  assumes "sessionOptions opts w = (options, bsize, w1)"
    and "0 \<le> selectionCount options"
  shows "selectionCount options = (case given_selectionCount opts of None \<Rightarrow> 50 | Some n \<Rightarrow> n)
       \<and> (case fst (createSession allCandidates opts w) of
             Inl e \<Rightarrow> take (nat (selectionCount options)) (fst (orderedCandidates allCandidates options w1)) = []
           | Inr s \<Rightarrow>
               selectedCandidates s \<noteq> []
               \<and> selectedCandidates s =
                   take (nat (selectionCount options)) (fst (orderedCandidates allCandidates options w1))
               \<and> selectedCandidates (fst (runOps ops (s, w'))) = selectedCandidates s)"
proof -
  let ?sel = "fst (filterCandidates allCandidates options w1)"
  have tk: "?sel = take (nat (selectionCount options)) (fst (orderedCandidates allCandidates options w1))"
    by (rule filterCandidates_take [OF assms(2)])
  show ?thesis
  proof (cases "?sel = []")
    case True
    then have "isl (fst (createSession allCandidates opts w))"
      using createSession_cases [OF assms(1), of allCandidates] by simp
    then show ?thesis
      using True tk sessionOptions_count [OF assms(1)] by (auto simp: isl_def)
  next
    case False
    then obtain s where "fst (createSession allCandidates opts w) = Inr s"
      and "selectedCandidates s = ?sel"
      using createSession_cases [OF assms(1), of allCandidates] by auto
    then show ?thesis
      using False tk sessionOptions_count [OF assms(1)] by (simp add: runOps_selected)
  qed
qed

lemma createSession_selected_prefix_sample:
  "sessionOptions oneOption pairWorld = (DEFAULT_SESSION_OPTIONS\<lparr>selectionCount := 1\<rparr>, GRID_CAPACITY, pairWorld)
   \<and> fst (orderedCandidates pairRefs (DEFAULT_SESSION_OPTIONS\<lparr>selectionCount := 1\<rparr>) pairWorld) = [1, 0]
   \<and> (case fst (createSession pairRefs oneOption pairWorld) of
         Inl e \<Rightarrow> False
       | Inr s \<Rightarrow> selectedCandidates s = [1]
                 \<and> selectedCandidates (fst (runOps [SkipCandidate ''B''] (s, pairWorld))) = selectedCandidates s)"
proof -
  have so: "sessionOptions oneOption pairWorld = (DEFAULT_SESSION_OPTIONS\<lparr>selectionCount := 1\<rparr>, GRID_CAPACITY, pairWorld)"
    by (simp add: sessionOptions_def mergeOptions_def oneOption_def noOptions_def DEFAULT_SESSION_OPTIONS_def
        DEFAULT_batchSize_def)
  have nn: "0 \<le> selectionCount (DEFAULT_SESSION_OPTIONS\<lparr>selectionCount := 1\<rparr>)"
    by simp
  have ord: "fst (orderedCandidates pairRefs (DEFAULT_SESSION_OPTIONS\<lparr>selectionCount := 1\<rparr>) pairWorld) = [1, 0]"
    by (simp add: orderedCandidates_def eligibleCandidates_def applySelectionMethod_def
      applyGroupFilter_def applyRankFilter_def applyAIScoreThreshold_def keepsAIScore_def hasValidName_def
      DEFAULT_SESSION_OPTIONS_def pairWorld_def pairRefs_def sampleWorld_def sampleCandidate_def trim_node
      isEmptyValue_def Let_def parseIntOrZero_def parseIntString_samples)
  show ?thesis
    using so ord
      createSession_selected_prefix [OF so nn, of pairRefs "[SkipCandidate ''B'']" pairWorld]
    by (auto split: sum.splits)
qed

lemma many_heap: "k < 51 \<Longrightarrow> heap manyWorld ! k = sampleCandidate (decimal k) (JSNumber ''50'')"
  by (simp add: manyWorld_def sampleWorld_def)

lemma many_eligible:
  "eligibleCandidates (heap manyWorld) manyRefs (DEFAULT_SESSION_OPTIONS\<lparr>selectionCount := k\<rparr>) = manyRefs"
proof -
  have "\<forall>k \<in> set manyRefs. hasValidName (heap manyWorld ! k)"
    by (simp add: manyRefs_def many_heap hasValidName_def sampleCandidate_def trim_node)
  moreover have "\<forall>k \<in> set manyRefs. isEmptyValue (Rank_xB (heap manyWorld ! k))"
    by (simp add: manyRefs_def many_heap isEmptyValue_def sampleCandidate_def)
  moreover have "\<forall>k \<in> set manyRefs. keepsAIScore 0 100 (AI_Rank_xB (heap manyWorld ! k))"
    by (simp add: manyRefs_def many_heap keepsAIScore_def isEmptyValue_def sampleCandidate_def
        parseIntString_samples)
  ultimately show ?thesis
    by (simp add: eligibleCandidates_def applyGroupFilter_def applyRankFilter_def applyAIScoreThreshold_def
        DEFAULT_SESSION_OPTIONS_def Let_def)
qed

lemma many_ordered:
  "length (fst (orderedCandidates manyRefs (DEFAULT_SESSION_OPTIONS\<lparr>selectionCount := k\<rparr>) manyWorld)) = 51"
proof -
  have "length (fst (orderedCandidates manyRefs (DEFAULT_SESSION_OPTIONS\<lparr>selectionCount := k\<rparr>) manyWorld))
          = length manyRefs"
    by (simp add: orderedCandidates_def many_eligible applySelectionMethod_def Let_def)
       (simp add: DEFAULT_SESSION_OPTIONS_def)
  then show ?thesis by (simp add: manyRefs_def)
qed

lemma many_selected:
  assumes "sessionOptions opts manyWorld = (DEFAULT_SESSION_OPTIONS\<lparr>selectionCount := int k\<rparr>, bsize, manyWorld)"
    and "0 < k"
  shows "case fst (createSession manyRefs opts manyWorld) of
           Inl e \<Rightarrow> False
         | Inr s \<Rightarrow> length (selectedCandidates s) = min k 51"
proof -
  let ?options = "DEFAULT_SESSION_OPTIONS\<lparr>selectionCount := int k\<rparr>"
  have sel: "fst (filterCandidates manyRefs ?options manyWorld) =
               take k (fst (orderedCandidates manyRefs ?options manyWorld))"
    using filterCandidates_take [of ?options manyRefs manyWorld] by simp
  have len: "length (fst (filterCandidates manyRefs ?options manyWorld)) = min k 51"
    by (simp add: sel many_ordered min.commute)
  then have "fst (filterCandidates manyRefs ?options manyWorld) \<noteq> []"
    using assms(2) by auto
  then obtain s where "fst (createSession manyRefs opts manyWorld) = Inr s"
    and "selectedCandidates s = fst (filterCandidates manyRefs ?options manyWorld)"
    using createSession_cases [OF assms(1), of manyRefs] by auto
  then show ?thesis
    using len by simp
qed

lemma default_count: "DEFAULT_SESSION_OPTIONS\<lparr>selectionCount := 50\<rparr> = DEFAULT_SESSION_OPTIONS"
  by (simp add: DEFAULT_SESSION_OPTIONS_def)

lemma sessionOptions_noLimit:
  "sessionOptions noLimit w = (DEFAULT_SESSION_OPTIONS\<lparr>selectionCount := 9999\<rparr>, GRID_CAPACITY, w)"
  by (simp add: sessionOptions_def mergeOptions_def noLimit_def noOptions_def DEFAULT_SESSION_OPTIONS_def
      DEFAULT_batchSize_def)

text \<open>
  Claim C3. The claim says that when no selection count is given the session selects the
  whole filtered and ordered array, the default count being unbounded. The engine's callers
  rely on that: the launcher builds its options with the remark "no count - evaluate all
  matching" and passes no count, and the batch function passes \<open>9999\<close> as "No limit". But
  \<open>DEFAULT_SESSION_OPTIONS\<close> holds \<open>selectionCount: 50\<close>, so \<open>createSession\<close> cuts the
  selection: with fifty-one eligible candidates and no option given, the ordered array has
  fifty-one entries and the session only fifty, while the count \<open>9999\<close> keeps them all.
\<close>

theorem createSession_default_keeps_fifty:
  "sessionOptions noOptions manyWorld = (DEFAULT_SESSION_OPTIONS, GRID_CAPACITY, manyWorld)
   \<and> selectionCount DEFAULT_SESSION_OPTIONS = 50
   \<and> length (fst (orderedCandidates manyRefs DEFAULT_SESSION_OPTIONS manyWorld)) = 51
   \<and> (case fst (createSession manyRefs noOptions manyWorld) of
         Inl e \<Rightarrow> False
       | Inr s \<Rightarrow> length (selectedCandidates s) = 50)
   \<and> (case fst (createSession manyRefs noLimit manyWorld) of
         Inl e \<Rightarrow> False
       | Inr s \<Rightarrow> length (selectedCandidates s) = 51)"
proof -
  have none: "sessionOptions noOptions manyWorld = (DEFAULT_SESSION_OPTIONS\<lparr>selectionCount := int 50\<rparr>, GRID_CAPACITY, manyWorld)"
    by (simp add: sessionOptions_none default_count)
  have all: "sessionOptions noLimit manyWorld = (DEFAULT_SESSION_OPTIONS\<lparr>selectionCount := int 9999\<rparr>, GRID_CAPACITY, manyWorld)"
    by (simp add: sessionOptions_noLimit)
  have ordered: "length (fst (orderedCandidates manyRefs DEFAULT_SESSION_OPTIONS manyWorld)) = 51"
    using many_ordered [of 50] by (simp add: default_count)
  have fifty: "case fst (createSession manyRefs noOptions manyWorld) of
                 Inl e \<Rightarrow> False
               | Inr s \<Rightarrow> length (selectedCandidates s) = 50"
    using many_selected [OF none] by (simp split: sum.splits)
  have whole: "case fst (createSession manyRefs noLimit manyWorld) of
                 Inl e \<Rightarrow> False
               | Inr s \<Rightarrow> length (selectedCandidates s) = 51"
    using many_selected [OF all] by (simp split: sum.splits)
  show ?thesis
    using ordered fifty whole by (simp add: sessionOptions_none) (simp add: DEFAULT_SESSION_OPTIONS_def)
qed

section \<open>Loading a stored session\<close>

lemma candidateMap_None_iff: "candidateMap h allCandidates i = None \<longleftrightarrow> \<not> resolves h allCandidates i"
  by (auto simp: candidateMap_def resolves_def map_of_eq_None_iff image_iff)

lemma candidateMap_Some_iff: "(\<exists>c. candidateMap h allCandidates i = Some c) \<longleftrightarrow> resolves h allCandidates i"
  using candidateMap_None_iff [of h allCandidates i] by auto

lemma candidateMap_SomeD:
  "candidateMap h allCandidates i = Some c \<Longrightarrow> c \<in> set allCandidates \<and> ID_xA (h ! c) = i"
  by (auto simp: candidateMap_def dest!: map_of_SomeD)

lemma length_resolved:
  "length (resolveIds (candidateMap h allCandidates) ids) = length (filter (resolves h allCandidates) ids)"
proof -
  have "filter (\<lambda>c. c \<noteq> None) (map (candidateMap h allCandidates) ids) =
        map (candidateMap h allCandidates) (filter (resolves h allCandidates) ids)"
    by (simp add: filter_map comp_def candidateMap_Some_iff)
  then show ?thesis by (simp add: resolveIds_def)
qed

lemma resolves_single: "resolves (heap singleWorld) [0] i \<longleftrightarrow> i = ''A''"
  by (auto simp: resolves_def singleWorld_def sampleWorld_def sampleCandidate_def)

text \<open>
  Claim C5. When the stored session is not completed and fewer than nine tenths of its
  selected ids resolve in the dataset given to \<open>loadSession\<close>, the call returns
  \<open>null\<close> and the stored session is removed; nothing else in the world changes.
\<close>

theorem loadSession_stale:
  assumes "storage w = Some data"
    and "p_completedAt data = None"
    and "10 * length (filter (resolves (heap w) allCandidates) (p_selectedIds data)) < 9 * length (p_selectedIds data)"
  shows "loadSession allCandidates w = (None, w\<lparr>storage := None\<rparr>)"
  using assms by (simp add: loadSession_def Let_def length_resolved clearSession_def)

theorem loadSession_stale_witness:
  "storage staleWorld = Some stalePersisted
   \<and> p_completedAt stalePersisted = None
   \<and> 10 * length (filter (resolves (heap staleWorld) [0]) (p_selectedIds stalePersisted))
        < 9 * length (p_selectedIds stalePersisted)
   \<and> loadSession [0] staleWorld = (None, staleWorld\<lparr>storage := None\<rparr>)"
proof -
  have st: "storage staleWorld = Some stalePersisted"
    by (simp add: staleWorld_def)
  have nc: "p_completedAt stalePersisted = None"
    by (simp add: stalePersisted_def)
  have few: "10 * length (filter (resolves (heap staleWorld) [0]) (p_selectedIds stalePersisted))
               < 9 * length (p_selectedIds stalePersisted)"
    by (simp add: staleWorld_def resolves_single stalePersisted_def)
  show ?thesis
    using st nc few loadSession_stale [OF st nc few] by simp
qed

lemma restoreBatch_length: "length (snd (restoreBatch cmap items h)) = length h"
  by (induction items arbitrary: h) (auto simp: split_def Let_def split: option.splits)

lemma restoreBatch_append:
  "snd (restoreBatch cmap (xs @ ys) h) = snd (restoreBatch cmap ys (snd (restoreBatch cmap xs h)))"
  by (induction xs arbitrary: h) (auto simp: split_def Let_def split: option.splits)

lemma restoreBatch_refs:
  "set (fst (restoreBatch cmap items h)) = {c. \<exists>i \<in> fst ` set items. cmap i = Some c}"
proof (induction items arbitrary: h)
  case Nil
  then show ?case by simp
next
  case (Cons item items)
  obtain i row col where item: "item = (i, row, col)" by (cases item)
  show ?case
  proof (cases "cmap i")
    case None
    then show ?thesis using Cons item by auto
  next
    case (Some d)
    then show ?thesis using Cons item by (auto simp: split_def Let_def)
  qed
qed

lemma restoreBatch_untouched:
  "\<forall>item \<in> set items. cmap (fst item) \<noteq> Some c \<Longrightarrow> snd (restoreBatch cmap items h) ! c = h ! c"
proof (induction items arbitrary: h)
  case Nil
  then show ?case by simp
next
  case (Cons item items)
  obtain i row col where item: "item = (i, row, col)" by (cases item)
  show ?case
  proof (cases "cmap i")
    case None
    then show ?thesis using Cons item by simp
  next
    case (Some d)
    then have "d \<noteq> c" using Cons.prems item by auto
    then show ?thesis using Cons Some item by (simp add: split_def Let_def)
  qed
qed

lemma restoreBatch_written:
  assumes "items = pre @ (i, row, col) # post"
    and "cmap i = Some c"
    and "c < length h"
    and "\<forall>item \<in> set post. cmap (fst item) \<noteq> Some c"
  shows "gridRow (snd (restoreBatch cmap items h) ! c) = row \<and> gridCol (snd (restoreBatch cmap items h) ! c) = col"
proof -
  define h1 where "h1 = snd (restoreBatch cmap pre h)"
  define h2 where "h2 = h1[c := (h1 ! c)\<lparr>gridRow := row, gridCol := col\<rparr>]"
  have len: "c < length h1" using assms(3) by (simp add: h1_def restoreBatch_length)
  have "snd (restoreBatch cmap items h) = snd (restoreBatch cmap ((i, row, col) # post) h1)"
    by (simp add: assms(1) restoreBatch_append h1_def)
  also have "\<dots> = snd (restoreBatch cmap post h2)"
    using assms(2) by (simp add: split_def Let_def h2_def)
  finally have "snd (restoreBatch cmap items h) ! c = h2 ! c"
    using restoreBatch_untouched [OF assms(4)] by simp
  then show ?thesis using len by (simp add: h2_def)
qed

text \<open>
  Claim C9, and what holds instead. When the stored session is not completed and not
  stale, \<open>loadSession\<close> returns a session, and for every id of the stored current batch
  that resolves to an object of the caller's dataset, that very object carries the stored
  \<open>gridRow\<close> and \<open>gridCol\<close> afterwards (those of the id's last entry) and is itself in
  the session's current batch; no object is allocated.
\<close>

theorem loadSession_writes_caller_object:
  assumes "storage w = Some data"
    and "p_completedAt data = None"
    and "\<not> 10 * length (filter (resolves (heap w) allCandidates) (p_selectedIds data)) < 9 * length (p_selectedIds data)"
    and "p_currentBatchData data = pre @ (i, row, col) # post"
    and "i \<notin> fst ` set post"
    and "candidateMap (heap w) allCandidates i = Some c"
    and "c < length (heap w)"
  shows "c \<in> set allCandidates
       \<and> gridRow (heap (snd (loadSession allCandidates w)) ! c) = row
       \<and> gridCol (heap (snd (loadSession allCandidates w)) ! c) = col
       \<and> length (heap (snd (loadSession allCandidates w))) = length (heap w)
       \<and> (case fst (loadSession allCandidates w) of
             None \<Rightarrow> False
           | Some s \<Rightarrow> c \<in> set (currentBatchCandidates s))"
proof -
  let ?cmap = "candidateMap (heap w) allCandidates"
  have post: "\<forall>item \<in> set post. ?cmap (fst item) \<noteq> Some c"
  proof
    fix item assume item: "item \<in> set post"
    show "?cmap (fst item) \<noteq> Some c"
    proof
      assume "?cmap (fst item) = Some c"
      then have "ID_xA (heap w ! c) = fst item" by (simp add: candidateMap_SomeD)
      moreover have "ID_xA (heap w ! c) = i" using assms(6) by (simp add: candidateMap_SomeD)
      ultimately show False using item assms(5) by auto
    qed
  qed
  have written: "gridRow (snd (restoreBatch ?cmap (p_currentBatchData data) (heap w)) ! c) = row
               \<and> gridCol (snd (restoreBatch ?cmap (p_currentBatchData data) (heap w)) ! c) = col"
    by (rule restoreBatch_written [OF assms(4) assms(6) assms(7) post])
  have inbatch: "c \<in> set (fst (restoreBatch ?cmap (p_currentBatchData data) (heap w)))"
    using assms(4) assms(6) by (force simp: restoreBatch_refs)
  show ?thesis
    using assms(1,2,3) written inbatch candidateMap_SomeD [OF assms(6)]
    by (simp add: loadSession_def Let_def length_resolved split_def restoreBatch_length)
qed

lemma cmap_single: "candidateMap (heap singleWorld) [0] ''A'' = Some 0"
  by (simp add: candidateMap_def singleWorld_def sampleWorld_def sampleCandidate_def)

theorem loadSession_writes_caller_object_witness:
  "storage resumableWorld = Some resumablePersisted
   \<and> p_completedAt resumablePersisted = None
   \<and> p_currentBatchData resumablePersisted = [] @ (''A'', JSNumber ''1'', JSNumber ''2'') # []
   \<and> candidateMap (heap resumableWorld) [0] ''A'' = Some 0
   \<and> gridRow (heap resumableWorld ! 0) = JSUndefined
   \<and> gridRow (heap (snd (loadSession [0] resumableWorld)) ! 0) = JSNumber ''1''
   \<and> gridCol (heap (snd (loadSession [0] resumableWorld)) ! 0) = JSNumber ''2''
   \<and> length (heap (snd (loadSession [0] resumableWorld))) = length (heap resumableWorld)"
proof -
  have st: "storage resumableWorld = Some resumablePersisted"
    by (simp add: resumableWorld_def)
  have nc: "p_completedAt resumablePersisted = None"
    by (simp add: resumablePersisted_def stalePersisted_def)
  have enough: "\<not> 10 * length (filter (resolves (heap resumableWorld) [0]) (p_selectedIds resumablePersisted))
               < 9 * length (p_selectedIds resumablePersisted)"
    by (simp add: resumableWorld_def resolves_single resumablePersisted_def)
  have items: "p_currentBatchData resumablePersisted = [] @ (''A'', JSNumber ''1'', JSNumber ''2'') # []"
    by (simp add: resumablePersisted_def stalePersisted_def)
  have last: "''A'' \<notin> fst ` set ([] :: (string \<times> jsval \<times> jsval) list)"
    by simp
  have cm: "candidateMap (heap resumableWorld) [0] ''A'' = Some 0"
    by (simp add: resumableWorld_def cmap_single)
  have inheap: "0 < length (heap resumableWorld)"
    by (simp add: resumableWorld_def singleWorld_def sampleWorld_def)
  have before: "gridRow (heap resumableWorld ! 0) = JSUndefined"
    by (simp add: resumableWorld_def singleWorld_def sampleWorld_def sampleCandidate_def)
  show ?thesis
    using st nc items cm before loadSession_writes_caller_object [OF st nc enough items last cm inheap]
    by simp
qed

lemma gridCoords_3:
  "gridCoords 3 = [(JSNumber ''0'', JSNumber ''0''), (JSNumber ''0'', JSNumber ''1''), (JSNumber ''0'', JSNumber ''2''),
                   (JSNumber ''1'', JSNumber ''0''), (JSNumber ''1'', JSNumber ''1''), (JSNumber ''1'', JSNumber ''2''),
                   (JSNumber ''2'', JSNumber ''0''), (JSNumber ''2'', JSNumber ''1''), (JSNumber ''2'', JSNumber ''2'')]"
  by code_simp

lemma created_single_world:
  "heap (snd (createSession [0] noOptions singleWorld)) = heap singleWorld
   \<and> rng (snd (createSession [0] noOptions singleWorld)) = rng singleWorld
   \<and> draws (snd (createSession [0] noOptions singleWorld)) = 0
   \<and> clock (snd (createSession [0] noOptions singleWorld)) = clock singleWorld
   \<and> ticks (snd (createSession [0] noOptions singleWorld)) = 3"
  by (simp add: createSession_def sessionOptions_none filter_single Let_def Date_now_def clearSession_def
      saveSession_def split_def)
     (simp add: singleWorld_def sampleWorld_def)

lemma served_single:
  "currentBatchCandidates (fst (snd servedSingle)) = [1]
   \<and> scores (fst (snd servedSingle)) = []
   \<and> undecided (fst (snd servedSingle)) = []
   \<and> selectedCandidates (fst (snd servedSingle)) = [0]
   \<and> heap (snd (snd servedSingle)) =
       [sampleCandidate ''A'' (JSNumber ''55''),
        (sampleCandidate ''A'' (JSNumber ''55''))\<lparr>gridRow := JSNumber ''0'', gridCol := JSNumber ''0''\<rparr>]
   \<and> clock (snd (snd servedSingle)) = clock singleWorld"
  by (simp add: servedSingle_def getNextBatchWithGridPositions_def Let_def split_def singleSession_def
      mapHas_def js_slice_def GRID_CAPACITY_def GRID_SIZE_def assignGridCell_def initGrid_def initGridOf_def
      gridCoords_3 randomIndex_def allocObject_def created_single_world heap_saveSession cellKey_def
      saveSession_def Date_now_def)
     (simp add: singleWorld_def sampleWorld_def sampleCandidate_def)

lemma scoreCandidate_saved:
  "\<not> mapHas (scores s) cid \<Longrightarrow>
   map_option p_completedAt (storage (snd (snd (scoreCandidate s cid sc w)))) =
     Some (completedAt (fst (snd (scoreCandidate s cid sc w))))
   \<and> map_option p_currentBatchData (storage (snd (snd (scoreCandidate s cid sc w)))) =
     Some (map (\<lambda>c. (ID_xA (heap w ! c), jsonValue (gridRow (heap w ! c)), jsonValue (gridCol (heap w ! c))))
               (currentBatchCandidates s))
   \<and> heap (snd (snd (scoreCandidate s cid sc w))) = heap w"
  by (simp add: scoreCandidate_def saveSession_def Date_now_def Let_def split_def)

lemma completedWorld_facts:
  "map_option p_completedAt (storage completedWorld) = Some (Some (1000 + (ticks (snd (snd servedSingle)) + 2)))
   \<and> map_option p_currentBatchData (storage completedWorld) = Some [(''A'', JSNumber ''0'', JSNumber ''0'')]
   \<and> heap completedWorld = heap (snd (snd servedSingle))"
proof -
  have fresh: "\<not> mapHas (scores (fst (snd servedSingle))) ''A''"
    by (simp add: served_single mapHas_def)
  have fin: "completedAt (fst (snd (scoreCandidate (fst (snd servedSingle)) ''A'' (JSNumber ''2'') (snd (snd servedSingle)))))
                = Some (1000 + (ticks (snd (snd servedSingle)) + 2))"
    using fresh
    by (simp add: scoreCandidate_def saveSession_def Date_now_def Let_def split_def served_single)
       (simp add: singleWorld_def sampleWorld_def)
  show ?thesis
    using scoreCandidate_saved [OF fresh, of "JSNumber ''2''" "snd (snd servedSingle)"] fin
    by (simp add: completedWorld_def served_single sampleCandidate_def jsonValue_def)
qed

text \<open>
  Claim C9, as stated. The claim speaks of every stored session whose current batch has an
  id that resolves. A stored session that is completed is not loaded at all: after the
  only candidate was served in the grid and scored, the stored current batch names \<open>A\<close>
  with cell \<open>(0, 0)\<close>, \<open>A\<close> resolves to the caller's object, and \<open>loadSession\<close> returns
  \<open>null\<close> and leaves that object without a grid position.
\<close>

theorem completed_session_not_restored_counterexample:
  "map_option p_currentBatchData (storage completedWorld) = Some [(''A'', JSNumber ''0'', JSNumber ''0'')]
   \<and> candidateMap (heap completedWorld) [0] ''A'' = Some 0
   \<and> loadSession [0] completedWorld = (None, completedWorld)
   \<and> gridRow (heap (snd (loadSession [0] completedWorld)) ! 0) = JSUndefined"
proof -
  obtain data where st: "storage completedWorld = Some data"
    and fin: "p_completedAt data = Some (1000 + (ticks (snd (snd servedSingle)) + 2))"
    using completedWorld_facts by (cases "storage completedWorld") auto
  have load: "loadSession [0] completedWorld = (None, completedWorld)"
    using st fin by (simp add: loadSession_def)
  have hp: "heap completedWorld =
       [sampleCandidate ''A'' (JSNumber ''55''),
        (sampleCandidate ''A'' (JSNumber ''55''))\<lparr>gridRow := JSNumber ''0'', gridCol := JSNumber ''0''\<rparr>]"
    using completedWorld_facts by (simp add: served_single)
  have batch: "map_option p_currentBatchData (storage completedWorld) = Some [(''A'', JSNumber ''0'', JSNumber ''0'')]"
    using completedWorld_facts by simp
  have cm: "candidateMap (heap completedWorld) [0] ''A'' = Some 0"
    by (simp add: hp candidateMap_def sampleCandidate_def)
  have row: "gridRow (heap completedWorld ! 0) = JSUndefined"
    by (simp add: hp sampleCandidate_def)
  show ?thesis
    using batch cm row by (simp add: load)
qed

end
